theory Spec2Isabelle
  imports Complex_Main
begin

section \<open>Python values, strings and errors\<close>

text \<open>
  The play-by-play code of \<^verbatim>\<open>nfl_stats/pbp.py\<close> works on Python strings and on
  dictionaries from column names to Python values. A string is a list of characters; a
  character stands for a code point in the range 0 to 255, and text with wider code points
  is outside the model. Floats are idealised as rationals together with NaN.
\<close>

datatype pyval =
    PNone
  | PNaN
  | PBool bool
  | PInt int
  | PFloat rat
  | PStr string

datatype pyerr = ValueError | KeyError | TypeError | AttributeError | UnboundLocalError | IndexError

type_synonym pydict = "string \<rightharpoonup> pyval"

text \<open>White space, digits, letter case and word characters, by code point.\<close>

definition py_isspace :: "char \<Rightarrow> bool" where
  "py_isspace c = ((of_char c :: nat) \<in> set [9, 10, 11, 12, 13, 28, 29, 30, 31, 32, 133, 160])"

definition py_isdigit :: "char \<Rightarrow> bool" where
  "py_isdigit c = (c \<in> set ''0123456789'')"

definition latin1_upper :: "char \<Rightarrow> bool" where
  "latin1_upper c = (let n = (of_char c :: nat) in 192 \<le> n \<and> n \<le> 222 \<and> n \<noteq> 215)"

definition lower_char :: "char \<Rightarrow> char" where
  "lower_char c =
     (case map_of (zip ''ABCDEFGHIJKLMNOPQRSTUVWXYZ'' ''abcdefghijklmnopqrstuvwxyz'') c of
        Some l \<Rightarrow> l
      | None \<Rightarrow> if latin1_upper c then char_of ((of_char c :: nat) + 32) else c)"

definition py_lower :: "string \<Rightarrow> string" where
  "py_lower s = map lower_char s"

definition py_isword :: "char \<Rightarrow> bool" where
  "py_isword c =
     (c \<in> set ''abcdefghijklmnopqrstuvwxyzABCDEFGHIJKLMNOPQRSTUVWXYZ0123456789_'' \<or>
      (let n = (of_char c :: nat)
       in n \<in> set [170, 178, 179, 181, 185, 186, 188, 189, 190] \<or>
          (192 \<le> n \<and> n \<noteq> 215 \<and> n \<noteq> 247)))"

text \<open>\<^verbatim>\<open>s.strip()\<close>, \<^verbatim>\<open>s.split()\<close>, \<^verbatim>\<open>sub in s\<close>,
  \<^verbatim>\<open>s.find(sub)\<close> and \<^verbatim>\<open>s.index(sub)\<close>.\<close>

definition py_strip :: "string \<Rightarrow> string" where
  "py_strip s = rev (dropWhile py_isspace (rev (dropWhile py_isspace s)))"

fun py_split_aux :: "string \<Rightarrow> string \<Rightarrow> string list" where
  "py_split_aux w [] = (if w = [] then [] else [rev w])"
| "py_split_aux w (c # cs) =
     (if py_isspace c then (if w = [] then py_split_aux [] cs else rev w # py_split_aux [] cs)
      else py_split_aux (c # w) cs)"

definition py_split :: "string \<Rightarrow> string list" where
  "py_split s = py_split_aux [] s"

fun py_find :: "string \<Rightarrow> string \<Rightarrow> nat option" where
  "py_find sub [] = (if sub = [] then Some 0 else None)"
| "py_find sub (c # cs) =
     (if take (length sub) (c # cs) = sub then Some 0
      else map_option Suc (py_find sub cs))"

definition py_contains :: "string \<Rightarrow> string \<Rightarrow> bool" where
  "py_contains sub s = (py_find sub s \<noteq> None)"

section \<open>Regular expressions as the \<^verbatim>\<open>re\<close> module matches them\<close>

text \<open>
  Every pattern of \<^verbatim>\<open>parse_play_details\<close> is compiled with
  \<^verbatim>\<open>re.IGNORECASE\<close> and used through \<^verbatim>\<open>search\<close>. The patterns repeat
  single characters and character classes only; groups are optional or alternatives.
  The matcher below is the backtracking matcher of \<^verbatim>\<open>re\<close> for this fragment:
  alternatives left to right, greedy repetitions longest first, lazy ones shortest first,
  and the first complete match at the leftmost start position wins.
\<close>

datatype cclass =
    CAny
  | CNonSpace
  | CSpace
  | CDigit
  | CWord
  | CAlpha
  | CNotIn "char list"

fun in_class :: "cclass \<Rightarrow> char \<Rightarrow> bool" where
  "in_class CAny c = (c \<noteq> CHR 0x0A)"
| "in_class CNonSpace c = (\<not> py_isspace c)"
| "in_class CSpace c = py_isspace c"
| "in_class CDigit c = py_isdigit c"
| "in_class CWord c = py_isword c"
| "in_class CAlpha c = (lower_char c \<in> set ''abcdefghijklmnopqrstuvwxyz'')"
| "in_class (CNotIn cs) c = (c \<notin> set cs)"

datatype rx =
    Lit string
  | Rep cclass nat "nat option" bool
  | Seq rx rx
  | Alt rx rx
  | Opt rx
  | Grp string rx
  | Bol

type_synonym caps = "string \<rightharpoonup> string"

definition run_len :: "cclass \<Rightarrow> nat option \<Rightarrow> string \<Rightarrow> nat" where
  "run_len cl hi s =
     length (takeWhile (in_class cl) (case hi of None \<Rightarrow> s | Some h \<Rightarrow> take h s))"

text \<open>The repetition counts a class repetition tries, in the order it tries them.\<close>

definition rep_counts :: "cclass \<Rightarrow> nat \<Rightarrow> nat option \<Rightarrow> bool \<Rightarrow> string \<Rightarrow> nat list" where
  "rep_counts cl lo hi greedy s =
     (let js = [lo ..< Suc (run_len cl hi s)] in if greedy then rev js else js)"

text \<open>
  The matcher works on a stack of what is still to be matched: patterns, and the ends of
  the groups that are open (with the text at which the group began). \<open>i\<close> is the
  position in the subject, \<open>s\<close> the text from there on, \<open>c\<close> the captures so far.
\<close>

datatype item = R rx | Close string string

fun weight :: "rx \<Rightarrow> nat" where
  "weight (Lit l) = 1"
| "weight (Rep cl lo hi g) = 1"
| "weight (Seq a b) = weight a + weight b + 1"
| "weight (Alt a b) = weight a + weight b + 1"
| "weight (Opt a) = weight a + 1"
| "weight (Grp n a) = weight a + 2"
| "weight Bol = 1"

fun item_weight :: "item \<Rightarrow> nat" where
  "item_weight (R r) = weight r"
| "item_weight (Close n s0) = 1"

function rmatch :: "item list \<Rightarrow> nat \<Rightarrow> string \<Rightarrow> caps \<Rightarrow> caps option"
  and try_counts :: "item list \<Rightarrow> nat \<Rightarrow> string \<Rightarrow> caps \<Rightarrow> nat list \<Rightarrow> caps option" where
  "rmatch [] i s c = Some c"
| "rmatch (R (Lit l) # k) i s c =
     (if py_lower (take (length l) s) = py_lower l
      then rmatch k (i + length l) (drop (length l) s) c else None)"
| "rmatch (R (Rep cl lo hi greedy) # k) i s c = try_counts k i s c (rep_counts cl lo hi greedy s)"
| "rmatch (R (Seq a b) # k) i s c = rmatch (R a # R b # k) i s c"
| "rmatch (R (Alt a b) # k) i s c =
     (case rmatch (R a # k) i s c of Some r \<Rightarrow> Some r | None \<Rightarrow> rmatch (R b # k) i s c)"
| "rmatch (R (Opt a) # k) i s c =
     (case rmatch (R a # k) i s c of Some r \<Rightarrow> Some r | None \<Rightarrow> rmatch k i s c)"
| "rmatch (R (Grp n a) # k) i s c = rmatch (R a # Close n s # k) i s c"
| "rmatch (R Bol # k) i s c = (if i = 0 then rmatch k i s c else None)"
| "rmatch (Close n s0 # k) i s c = rmatch k i s (c(n \<mapsto> take (length s0 - length s) s0))"
| "try_counts k i s c [] = None"
| "try_counts k i s c (j # js) =
     (case rmatch k (i + j) (drop j s) c of Some r \<Rightarrow> Some r | None \<Rightarrow> try_counts k i s c js)"
  by pat_completeness auto
termination
  by (relation "measures
        [\<lambda>x. case x of Inl (k, i, s, c) \<Rightarrow> 2 * sum_list (map item_weight k)
                      | Inr (k, i, s, c, js) \<Rightarrow> 2 * sum_list (map item_weight k) + 1,
         \<lambda>x. case x of Inl (k, i, s, c) \<Rightarrow> 0 | Inr (k, i, s, c, js) \<Rightarrow> length js]")
     auto

text \<open>\<^verbatim>\<open>pattern.search(s)\<close>: the captures of the first match, trying every start
  position from the left (the end of the string included).\<close>

fun search_from :: "rx \<Rightarrow> nat \<Rightarrow> string \<Rightarrow> caps option" where
  "search_from r i [] = rmatch [R r] i [] Map.empty"
| "search_from r i (x # xs) =
     (case rmatch [R r] i (x # xs) Map.empty of
        Some c \<Rightarrow> Some c
      | None \<Rightarrow> search_from r (Suc i) xs)"

definition search :: "rx \<Rightarrow> string \<Rightarrow> caps option" where
  "search r s = search_from r 0 s"

fun groups_of :: "rx \<Rightarrow> string list" where
  "groups_of (Lit l) = []"
| "groups_of (Rep cl lo hi g) = []"
| "groups_of (Seq a b) = groups_of a @ groups_of b"
| "groups_of (Alt a b) = groups_of a @ groups_of b"
| "groups_of (Opt a) = groups_of a"
| "groups_of (Grp n a) = n # groups_of a"
| "groups_of Bol = []"

text \<open>\<^verbatim>\<open>match.groupdict()\<close>: every named group of the pattern, \<^verbatim>\<open>None\<close> for a
  group that took no part in the match.\<close>

definition groupdict :: "rx \<Rightarrow> caps \<Rightarrow> pydict" where
  "groupdict r c =
     (\<lambda>n. if n \<in> set (groups_of r)
          then Some (case c n of None \<Rightarrow> PNone | Some v \<Rightarrow> PStr v) else None)"

definition seqs :: "rx list \<Rightarrow> rx" where
  "seqs rs = foldr Seq rs (Lit [])"

definition alts :: "rx \<Rightarrow> rx list \<Rightarrow> rx" where
  "alts r rs = foldl Alt r rs"

definition one :: "cclass \<Rightarrow> rx" where
  "one cl = Rep cl 1 (Some 1) True"

definition plus :: "cclass \<Rightarrow> rx" where
  "plus cl = Rep cl 1 None True"

definition star :: "cclass \<Rightarrow> rx" where
  "star cl = Rep cl 0 None True"

definition lazy_plus :: "cclass \<Rightarrow> rx" where
  "lazy_plus cl = Rep cl 1 None False"

definition lazy_star :: "cclass \<Rightarrow> rx" where
  "lazy_star cl = Rep cl 0 None False"

section \<open>The patterns of \<^verbatim>\<open>parse_play_details\<close>\<close>

text \<open>The lookup tables of the module, in the order their keys are written.\<close>

definition RUSH_OPTS :: "(string \<times> string) list" where
  "RUSH_OPTS =
     [(''left end'', ''LE''), (''left tackle'', ''LT''), (''left guard'', ''LG''),
      (''up the middle'', ''M''), (''middle'', ''M''),
      (''right end'', ''RE''), (''right tackle'', ''RT''), (''right guard'', ''RG'')]"

definition PASS_OPTS :: "(string \<times> string) list" where
  "PASS_OPTS =
     [(''short left'', ''SL''), (''short middle'', ''SM''), (''short right'', ''SR''),
      (''deep left'', ''DL''), (''deep middle'', ''DM''), (''deep right'', ''DR'')]"

text \<open>\<^verbatim>\<open>'|'.join(keys)\<close> inside a named group.\<close>

definition join_keys :: "(string \<times> string) list \<Rightarrow> rx" where
  "join_keys tab = (case map (Lit \<circ> fst) tab of [] \<Rightarrow> Lit [] | r # rs \<Rightarrow> alts r rs)"

definition playerRE :: rx where
  "playerRE = Seq (Rep CNonSpace 6 (Some 8) True) (Rep CDigit 2 (Some 2) True)"

definition signed_digits :: rx where
  "signed_digits = Seq (Opt (Lit ''-'')) (plus CDigit)"

definition signed_digits0 :: rx where
  "signed_digits0 = Seq (Opt (Lit ''-'')) (star CDigit)"

definition yards_opt_s :: rx where
  "yards_opt_s = Seq (Lit '' yard'') (Opt (Lit ''s''))"

definition challengeRE :: rx where
  "challengeRE = seqs [plus CAny, Lit ''. '', Grp ''challenger'' (lazy_plus CAny),
     Lit '' challenged'', lazy_star CAny, Lit '' the play was '',
     Grp ''callUpheld'' (Alt (Lit ''upheld'') (Lit ''overturned'')), Lit ''.'']"

definition rusherRE :: rx where
  "rusherRE = Grp ''rusher'' playerRE"

definition rushOptRE :: rx where
  "rushOptRE = Opt (Seq (Lit '' '') (Grp ''rushDir'' (join_keys RUSH_OPTS)))"

definition passOptRE :: rx where
  "passOptRE = Opt (Seq (Lit '' '') (Grp ''passLoc'' (join_keys PASS_OPTS)))"

definition rushYardsRE :: rx where
  "rushYardsRE = Alt (Seq (Grp ''rushYds'' signed_digits) yards_opt_s) (Lit ''no gain'')"

definition tackleRE :: rx where
  "tackleRE = Opt (seqs [Lit '' (tackle by '', Grp ''tackler1'' playerRE,
     Opt (Seq (Lit '' and '') (Grp ''tackler2'' playerRE)), Lit '')''])"

definition fumbleRE :: rx where
  "fumbleRE = Opt (seqs [Opt (Lit ''.''), Opt (Lit '' ''), Grp ''fumbler'' playerRE, Lit '' fumbles'',
     Opt (seqs [Lit '' (forced by '', Grp ''fumbForcer'' playerRE, Lit '')'']),
     Opt (seqs [star CAny, Lit '', recovered by '', Grp ''fumbRecoverer'' playerRE, Lit '' at '']),
     Opt (Lit '', ball out of bounds at ''),
     Opt (seqs [Opt (Grp ''fumbRecFieldSide'' (plus CAlpha)), Opt (Lit ''-''),
                Grp ''fumbRecYdLine'' signed_digits]),
     Opt (seqs [Lit '' and returned for '', Grp ''fumbRetYds'' signed_digits0, Lit '' yards''])])"

definition tdSafetyRE :: rx where
  "tdSafetyRE = Opt (Alt (Grp ''isTD'' (Lit '', touchdown'')) (Grp ''isSafety'' (Lit '', safety'')))"

definition penaltyRE :: rx where
  "penaltyRE = Opt (seqs [lazy_star CAny, Lit ''. Penalty on '',
     Grp ''penOn'' (Alt playerRE (Lit [])), Lit '': '',
     Grp ''penalty'' (plus (CNotIn ''(,'')),
     Alt (seqs [Lit '' ('', Grp ''penDeclined'' (Lit ''Declined''), Lit '')''])
         (seqs [Lit '', '', Grp ''penYds'' (star CDigit), yards_opt_s]),
     Opt (Lit '' (no play)'')])"

definition rushRE :: rx where
  "rushRE = seqs [rusherRE, rushOptRE,
     Opt (seqs [Lit '' for '', rushYardsRE, tackleRE, fumbleRE, tdSafetyRE, penaltyRE])]"

definition passerRE :: rx where
  "passerRE = Grp ''passer'' playerRE"

definition sackRE :: rx where
  "sackRE = seqs [Lit ''sacked '',
     Opt (seqs [Lit ''by '', Grp ''sacker1'' playerRE,
                Opt (Seq (Lit '' and '') (Grp ''sacker2'' playerRE)), Lit '' '']),
     Lit ''for '', Grp ''sackYds'' signed_digits, yards_opt_s]"

definition completeRE :: rx where
  "completeRE = Seq (Lit ''pass '') (Grp ''isComplete'' (Seq (Opt (Lit ''in'')) (Lit ''complete'')))"

definition targetedRE :: rx where
  "targetedRE = Opt (seqs [Lit '' '', Opt (Alt (Lit ''to '') (Lit ''intended for '')),
     Grp ''target'' playerRE])"

definition passYardsRE :: rx where
  "passYardsRE = Seq (Lit '' for '')
     (Alt (Seq (Grp ''passYds'' signed_digits) yards_opt_s) (Lit ''no gain''))"

definition intRE :: rx where
  "intRE = Opt (seqs [Lit '' is intercepted by '', Grp ''interceptor'' playerRE, Lit '' at '',
     Opt (seqs [Opt (Grp ''intFieldSide'' (star CAlpha)), Opt (Lit ''-''),
                Grp ''intYdLine'' signed_digits0]),
     Opt (seqs [Lit '' and returned for '', Grp ''intRetYds'' signed_digits, yards_opt_s,
                Opt (Lit ''.'')])])"

definition throwRE :: rx where
  "throwRE = seqs [completeRE, passOptRE, targetedRE,
     Opt (Seq (Alt passYardsRE intRE) tackleRE)]"

definition passRE :: rx where
  "passRE = seqs [passerRE, Lit '' '', Alt sackRE throwRE,
     Opt (seqs [fumbleRE, tdSafetyRE, penaltyRE])]"

definition koKickerRE :: rx where
  "koKickerRE = Grp ''koKicker'' playerRE"

definition koYardsRE :: rx where
  "koYardsRE = seqs [Lit '' kicks '', Alt (Lit ''off'') (Grp ''isOnside'' (Lit ''onside'')), Lit '' '',
     Alt (Seq (Grp ''koYds'' (plus CDigit)) yards_opt_s) (Lit ''no gain'')]"

definition koNextREs :: "rx list" where
  "koNextREs =
     [seqs [Lit '', '', Alt (Lit ''returned'') (Lit ''recovered''), Lit '' by '',
            Grp ''koReturner'' playerRE,
            Opt (Seq (Lit '' for '')
                  (Alt (Seq (Grp ''koRetYds'' signed_digits) yards_opt_s) (Lit ''no gain'')))],
      seqs [Grp ''isMuffedCatch'' (Lit '', muffed catch by ''), Grp ''muffedBy'' playerRE, Lit '','',
            Opt (Seq (Lit '' recovered by '') (Grp ''muffRecoverer'' playerRE)),
            Opt (Seq (Lit '' and returned for '')
                  (Alt (Seq (Grp ''muffRetYds'' signed_digits) (Lit '' yards'')) (Lit ''no gain'')))],
      Seq (Lit '', recovered by '') (Grp ''onsideRecoverer'' playerRE),
      Grp ''oob'' (Lit '', out of bounds''),
      Grp ''isTouchback'' (Lit '', touchback'')]"

definition kickoffRE :: rx where
  "kickoffRE = seqs [koKickerRE, koYardsRE, seqs (map Opt koNextREs),
     tackleRE, fumbleRE, tdSafetyRE, penaltyRE]"

definition timeoutRE :: rx where
  "timeoutRE = seqs [Lit ''Timeout #'', Grp ''timeoutNum'' (one CDigit), Lit '' by '',
     Grp ''timeoutTeam'' (plus CAny)]"

definition fgKickerRE :: rx where
  "fgKickerRE = Grp ''fgKicker'' playerRE"

definition fgBaseRE :: rx where
  "fgBaseRE = seqs [Lit '' '', Grp ''fgDist'' (plus CDigit), Lit '' yard field goal '',
     Grp ''fgGood'' (Alt (Lit ''good'') (Lit ''no good''))]"

definition fgBlockRE :: rx where
  "fgBlockRE = seqs
     [Opt (seqs [Lit '', '', Grp ''isBlocked'' (Lit ''blocked''), Lit '' by '',
                 Grp ''fgBlocker'' playerRE]),
      Opt (Seq (Lit '', recovered by '') (Grp ''fgBlockRecoverer'' playerRE)),
      Opt (Seq (Lit '' and returned for '')
            (Alt (Seq (Grp ''fgBlockRetYds'' signed_digits) yards_opt_s) (Lit ''no gain'')))]"

definition fgRE :: rx where
  "fgRE = seqs [fgKickerRE, fgBaseRE, fgBlockRE, tdSafetyRE, penaltyRE]"

definition punterRE :: rx where
  "punterRE = Seq (lazy_star CAny) (Grp ''punter'' playerRE)"

definition puntBlockRE :: rx where
  "puntBlockRE = seqs [Lit '' punts, '', Grp ''isBlocked'' (Lit ''blocked''), Lit '' by '',
     Grp ''puntBlocker'' playerRE,
     Opt (seqs [Lit '', recovered by '', Grp ''puntBlockRecoverer'' playerRE,
                Opt (Seq (Lit '' and returned '')
                      (Alt (Seq (Grp ''puntBlockRetYds'' signed_digits) (Lit '' yards''))
                           (Lit ''no gain'')))])]"

definition puntYdsRE :: rx where
  "puntYdsRE = seqs [Lit '' punts '', Grp ''puntYds'' (plus CDigit), yards_opt_s]"

definition puntNextREs :: "rx list" where
  "puntNextREs =
     [seqs [Lit '', '', Grp ''isFairCatch'' (Lit ''fair catch''), Lit '' by '',
            Grp ''fairCatcher'' playerRE],
      Seq (Lit '', '') (Grp ''oob'' (Lit ''out of bounds'')),
      seqs [Grp ''isMuffedCatch'' (Lit '', muffed catch by ''), Grp ''muffedBy'' playerRE,
            Lit '', recovered by '', Grp ''muffRecoverer'' playerRE, Lit '' and returned for '',
            Alt (Seq (Grp ''muffRetYds'' (plus CDigit)) (Lit '' yards'')) (Lit ''no gain'')],
      seqs [Lit '', returned by '', Grp ''puntReturner'' playerRE, Lit '' for '',
            Alt (Seq (Grp ''puntRetYds'' signed_digits) yards_opt_s) (Lit ''no gain'')],
      Grp ''isTouchback'' (Lit '', touchback'')]"

definition puntRE :: rx where
  "puntRE = seqs [punterRE, Alt puntBlockRE puntYdsRE,
     Opt (case puntNextREs of [] \<Rightarrow> Lit [] | r # rs \<Rightarrow> alts r rs),
     tackleRE, fumbleRE, tdSafetyRE, penaltyRE]"

definition kneelRE :: rx where
  "kneelRE = seqs [Grp ''kneelQB'' playerRE, Lit '' kneels for '',
     Alt (Seq (Grp ''kneelYds'' signed_digits) yards_opt_s) (Lit ''no gain'')]"

definition spikeRE :: rx where
  "spikeRE = Seq (Grp ''spikeQB'' playerRE) (Lit '' spiked the ball'')"

definition extraPointRE :: rx where
  "extraPointRE = seqs [Opt (Seq (Grp ''xpKicker'' playerRE) (Lit '' kicks'')), Opt (Lit '' ''),
     Lit ''extra point '', Grp ''xpGood'' (Alt (Lit ''good'') (Lit ''no good''))]"

definition twoPointRE :: rx where
  "twoPointRE = seqs [Lit ''Two Point Attempt: '', Grp ''twoPoint'' (lazy_star CAny),
     Opt (Lit '',''), plus CSpace, Lit ''conversion'', plus CSpace,
     Grp ''twoPointSuccess'' (Alt (Lit ''succeeds'') (Lit ''fails''))]"

definition psPenaltyRE :: rx where
  "psPenaltyRE = seqs [Bol, Lit ''Penalty on '',
     Grp ''penOn'' (Alt playerRE (Rep CWord 3 (Some 3) True)), Lit '': '',
     Grp ''penalty'' (plus (CNotIn ''(,'')),
     alts (seqs [Lit '' ('', Grp ''penDeclined'' (Lit ''Declined''), Lit '')''])
          [seqs [Lit '', '', Grp ''penYds'' (star CDigit), yards_opt_s],
           Seq (lazy_star CAny) (Lit '' (no play)'')]]"

section \<open>What the matcher guarantees\<close>



fun item_bounded :: "nat \<Rightarrow> item \<Rightarrow> bool" where
  "item_bounded N (R r) = True"
| "item_bounded N (Close n s0) = (length s0 \<le> N)"



lemma py_lower_eq_length: "py_lower a = py_lower b \<Longrightarrow> length a = length b"
  by (metis length_map py_lower_def)



lemma rmatch_caps_bounded:
  "rmatch k i s c = Some c' \<Longrightarrow> length s \<le> N \<Longrightarrow> list_all (item_bounded N) k \<Longrightarrow>
     (\<forall>n v. c' n = Some v \<longrightarrow> c n = Some v \<or> length v \<le> N)"
  "try_counts k i s c js = Some c' \<Longrightarrow> length s \<le> N \<Longrightarrow> list_all (item_bounded N) k \<Longrightarrow>
     (\<forall>n v. c' n = Some v \<longrightarrow> c n = Some v \<or> length v \<le> N)"
proof (induction k i s c and k i s c js arbitrary: c' and c' rule: rmatch_try_counts.induct)
  case (2 l k i s c)
  then show ?case by (auto split: if_splits)
next
  case (5 a b k i s c)
  then show ?case by (auto split: option.splits)
next
  case (6 a k i s c)
  then show ?case by (auto split: option.splits)
next
  case (8 k i s c)
  then show ?case by (auto split: if_splits)
next
  case (9 n s0 k i s c)
  from 9(2) have m: "rmatch k i s (c(n \<mapsto> take (length s0 - length s) s0)) = Some c'"
    by simp
  from 9(4) have k: "list_all (item_bounded N) k" and s0: "length s0 \<le> N" by simp_all
  from 9(1)[OF m 9(3) k] have h: "\<forall>m v. c' m = Some v \<longrightarrow>
      (c(n \<mapsto> take (length s0 - length s) s0)) m = Some v \<or> length v \<le> N" .
  have b: "length (take (length s0 - length s) s0) \<le> N" using s0 by simp
  show ?case
  proof (intro allI impI)
    fix m v
    assume "c' m = Some v"
    with h have "(c(n \<mapsto> take (length s0 - length s) s0)) m = Some v \<or> length v \<le> N"
      by blast
    then show "c m = Some v \<or> length v \<le> N"
      using b by (cases "m = n") auto
  qed
next
  case (11 k i s c j js)
  then show ?case by (auto split: option.splits)
qed auto


lemma search_from_SomeD:
  "search_from r i s = Some c \<Longrightarrow>
   \<exists>j \<le> length s. rmatch [R r] (i + j) (drop j s) Map.empty = Some c"
proof (induction s arbitrary: i)
  case Nil
  then show ?case by simp
next
  case (Cons x xs)
  show ?case
  proof (cases "rmatch [R r] i (x # xs) Map.empty")
    case (Some c0)
    with Cons.prems have "rmatch [R r] (i + 0) (drop 0 (x # xs)) Map.empty = Some c"
      by simp
    then show ?thesis by blast
  next
    case None
    with Cons.prems have "search_from r (Suc i) xs = Some c" by simp
    from Cons.IH[OF this] obtain j where "j \<le> length xs"
      "rmatch [R r] (Suc i + j) (drop j xs) Map.empty = Some c" by blast
    then have "Suc j \<le> length (x # xs)"
      "rmatch [R r] (i + Suc j) (drop (Suc j) (x # xs)) Map.empty = Some c"
      by simp_all
    then show ?thesis by blast
  qed
qed




section \<open>\<^verbatim>\<open>parse_play_details\<close>\<close>

text \<open>\<^verbatim>\<open>match.group(name)\<close>.\<close>

definition py_group :: "caps \<Rightarrow> string \<Rightarrow> pyval" where
  "py_group m n = (case m n of None \<Rightarrow> PNone | Some v \<Rightarrow> PStr v)"

text \<open>The challenge clause at the head of the function: the play is marked as challenged,
  and when the text contains \<^verbatim>\<open>overturned\<close> only what follows
  \<^verbatim>\<open>overturned.\<close> is parsed. \<^verbatim>\<open>details.index\<close> raises
  \<^verbatim>\<open>ValueError\<close> when the text has no \<^verbatim>\<open>overturned.\<close>.\<close>

definition handle_challenge :: "string \<Rightarrow> pyerr + (pydict \<times> string)" where
  "handle_challenge details =
     (case search challengeRE details of
        Some m \<Rightarrow>
          (let struct = [''isChallenge'' \<mapsto> PBool True] ++ groupdict challengeRE m in
           if py_contains ''overturned'' details then
             (case py_find ''overturned.'' details of
                None \<Rightarrow> Inl ValueError
              | Some overturned_idx \<Rightarrow>
                  (let new_start = overturned_idx + length ''overturned.''
                   in Inr (struct, py_strip (drop new_start details))))
           else Inr (struct, details))
      | None \<Rightarrow> Inr ([''isChallenge'' \<mapsto> PBool False], details))"

text \<open>A successful matcher: the category flag is set and the named groups are merged into
  the result.\<close>

definition matched :: "pydict \<Rightarrow> string \<Rightarrow> rx \<Rightarrow> caps \<Rightarrow> pyerr + pydict option" where
  "matched struct flag r m = Inr (Some (struct(flag \<mapsto> PBool True) ++ groupdict r m))"

lemma py_strip_length: "length (py_strip s) \<le> length s"
proof -
  have "length (py_strip s) \<le> length (dropWhile py_isspace s)"
    unfolding py_strip_def using length_dropWhile_le[of py_isspace "rev (dropWhile py_isspace s)"]
    by simp
  also have "\<dots> \<le> length s" by (rule length_dropWhile_le)
  finally show ?thesis .
qed

lemma handle_challenge_length:
  "handle_challenge d = Inr (st, d') \<Longrightarrow> length d' \<le> length d"
  unfolding handle_challenge_def
  by (auto simp: Let_def split: option.splits if_splits
           intro: order_trans[OF py_strip_length])

lemma twoPoint_inner_shorter:
  assumes "search twoPointRE s = Some m" "m ''twoPoint'' = Some v"
  shows "length v < length s"
proof -
  from assms(1) obtain j where j: "j \<le> length s"
    and m: "rmatch [R twoPointRE] (0 + j) (drop j s) Map.empty = Some m"
    unfolding search_def by (blast dest: search_from_SomeD)
  define t where "t = drop j s"
  define L where "L = ''Two Point Attempt: ''"
  define rest where "rest = seqs [Grp ''twoPoint'' (lazy_star CAny),
     Opt (Lit '',''), plus CSpace, Lit ''conversion'', plus CSpace,
     Grp ''twoPointSuccess'' (Alt (Lit ''succeeds'') (Lit ''fails''))]"
  have tp: "twoPointRE = Seq (Lit L) rest"
    by (simp add: twoPointRE_def rest_def seqs_def L_def)
  have Lpos: "0 < length L" by (simp add: L_def)
  from m have "rmatch [R (Lit L), R rest] (0 + j) t Map.empty = Some m"
    unfolding tp t_def by (simp only: rmatch.simps)
  then have eq: "py_lower (take (length L) t) = py_lower L"
    and r: "rmatch [R rest] (0 + j + length L) (drop (length L) t) Map.empty = Some m"
    by (auto simp only: rmatch.simps split: if_splits)
  from eq have len: "length L \<le> length t" by (auto dest: py_lower_eq_length)
  from rmatch_caps_bounded(1)[OF r, of "length (drop (length L) t)"]
  have "\<forall>n v. m n = Some v \<longrightarrow> Map.empty n = Some v \<or> length v \<le> length (drop (length L) t)"
    by simp
  then have "length v \<le> length (drop (length L) t)" using assms(2) by auto
  then have "length v \<le> length t - length L" by simp
  moreover have "length t \<le> length s" by (simp add: t_def)
  ultimately show ?thesis using len Lpos by linarith
qed

text \<open>The matchers tried before and after the two-point conversion, in the order of the
  function body.\<close>

definition try_before_two_point :: "pydict \<Rightarrow> string \<Rightarrow> (pyerr + pydict option) option" where
  "try_before_two_point struct details =
     (case search kickoffRE details of Some m \<Rightarrow> Some (matched struct ''isKickoff'' kickoffRE m) | None \<Rightarrow>
     (case search timeoutRE details of Some m \<Rightarrow> Some (matched struct ''isTimeout'' timeoutRE m) | None \<Rightarrow>
     (case search fgRE details of Some m \<Rightarrow> Some (matched struct ''isFieldGoal'' fgRE m) | None \<Rightarrow>
     (case search puntRE details of Some m \<Rightarrow> Some (matched struct ''isPunt'' puntRE m) | None \<Rightarrow>
     (case search kneelRE details of Some m \<Rightarrow> Some (matched struct ''isKneel'' kneelRE m) | None \<Rightarrow>
     (case search spikeRE details of Some m \<Rightarrow> Some (matched struct ''isSpike'' spikeRE m) | None \<Rightarrow>
     (case search extraPointRE details of Some m \<Rightarrow> Some (matched struct ''isXP'' extraPointRE m) | None \<Rightarrow>
      None)))))))"

definition try_after_two_point :: "pydict \<Rightarrow> string \<Rightarrow> pyerr + pydict option" where
  "try_after_two_point struct details =
     (case search passRE details of Some m \<Rightarrow> matched struct ''isPass'' passRE m | None \<Rightarrow>
     (case search psPenaltyRE details of Some m \<Rightarrow> matched struct ''isPresnapPenalty'' psPenaltyRE m | None \<Rightarrow>
     (case search rushRE details of Some m \<Rightarrow> matched struct ''isRun'' rushRE m | None \<Rightarrow>
      Inr None)))"

function parse_str :: "string \<Rightarrow> pyerr + pydict option" where
  "parse_str details0 =
     (case handle_challenge details0 of
        Inl e \<Rightarrow> Inl e
      | Inr (struct0, details) \<Rightarrow>
         (let struct = struct0(''isLateral'' \<mapsto> PBool (py_find ''lateral'' details \<noteq> None)) in
         (case try_before_two_point struct details of
            Some r \<Rightarrow> r
          | None \<Rightarrow>
             (case search twoPointRE details of
                Some m \<Rightarrow>
                  (let struct2 = struct(''isTwoPoint'' \<mapsto> PBool True,
                                        ''twoPointSuccess'' \<mapsto> py_group m ''twoPointSuccess'') in
                  (case (case m ''twoPoint'' of None \<Rightarrow> Inr None | Some inner \<Rightarrow> parse_str inner) of
                     Inl e \<Rightarrow> Inl e
                   | Inr None \<Rightarrow> Inr (Some struct2)
                   | Inr (Some realPlay) \<Rightarrow> Inr (Some (struct2 ++ realPlay))))
              | None \<Rightarrow> try_after_two_point struct details))))"
  by pat_completeness auto
termination
proof (relation "measure length")
  show "wf (measure length)" by simp
next
  fix details0 x2 struct0 details struct m struct2 inner
  assume "handle_challenge details0 = Inr x2" "(struct0, details) = x2"
    "search twoPointRE details = Some m" "m ''twoPoint'' = Some inner"
  then show "(inner, details0) \<in> measure length"
    using handle_challenge_length[of details0 struct0 details]
      twoPoint_inner_shorter[of details m inner] by auto
qed

text \<open>The function itself: anything that is not a string gives \<^verbatim>\<open>None\<close>.\<close>

definition parse_play_details :: "pyval \<Rightarrow> pyerr + pydict option" where
  "parse_play_details details = (case details of PStr s \<Rightarrow> parse_str s | _ \<Rightarrow> Inr None)"

section \<open>Python operations on values\<close>

definition py_get :: "pydict \<Rightarrow> string \<Rightarrow> pyval" where
  "py_get d k = (case d k of None \<Rightarrow> PNone | Some v \<Rightarrow> v)"

definition py_getitem :: "pydict \<Rightarrow> string \<Rightarrow> pyerr + pyval" where
  "py_getitem d k = (case d k of None \<Rightarrow> Inl KeyError | Some v \<Rightarrow> Inr v)"

text \<open>\<^verbatim>\<open>pd.notnull\<close> and \<^verbatim>\<open>pd.isnull\<close> on a scalar.\<close>

definition notnull :: "pyval \<Rightarrow> bool" where
  "notnull v = (v \<noteq> PNone \<and> v \<noteq> PNaN)"

text \<open>Truth value of an object: NaN is a non-zero float and so true.\<close>

fun truthy :: "pyval \<Rightarrow> bool" where
  "truthy PNone = False"
| "truthy PNaN = True"
| "truthy (PBool b) = b"
| "truthy (PInt n) = (n \<noteq> 0)"
| "truthy (PFloat r) = (r \<noteq> 0)"
| "truthy (PStr s) = (s \<noteq> [])"


text \<open>\<^verbatim>\<open>sub in v\<close>: a \<^verbatim>\<open>TypeError\<close> unless \<open>v\<close> is a string.\<close>

fun py_in :: "string \<Rightarrow> pyval \<Rightarrow> pyerr + bool" where
  "py_in sub (PStr s) = Inr (py_contains sub s)"
| "py_in sub v = Inl TypeError"

text \<open>\<^verbatim>\<open>s.split(sep)\<close> with a one-character separator.\<close>

fun py_split_on :: "char \<Rightarrow> string \<Rightarrow> string \<Rightarrow> string list" where
  "py_split_on sep w [] = [rev w]"
| "py_split_on sep w (c # cs) =
     (if c = sep then rev w # py_split_on sep [] cs else py_split_on sep (c # w) cs)"

text \<open>\<^verbatim>\<open>int(x)\<close>. A string may carry white space around it, a sign, and single
  underscores between its digits.\<close>

definition digit_val :: "char \<Rightarrow> nat" where
  "digit_val c = of_char c - of_char (CHR ''0'')"

definition digits_val :: "string \<Rightarrow> nat" where
  "digits_val ds = foldl (\<lambda>n c. 10 * n + digit_val c) 0 ds"

fun no_double_underscore :: "string \<Rightarrow> bool" where
  "no_double_underscore (a # b # cs) =
     (\<not> (a = CHR ''_'' \<and> b = CHR ''_'') \<and> no_double_underscore (b # cs))"
| "no_double_underscore cs = True"

definition valid_digits :: "string \<Rightarrow> bool" where
  "valid_digits body =
     (body \<noteq> [] \<and> py_isdigit (hd body) \<and> py_isdigit (last body) \<and>
      list_all (\<lambda>c. py_isdigit c \<or> c = CHR ''_'') body \<and> no_double_underscore body)"

definition split_sign :: "string \<Rightarrow> bool \<times> string" where
  "split_sign t =
     (case t of
        c # r \<Rightarrow> if c = CHR ''-'' then (True, r) else if c = CHR ''+'' then (False, r)
                 else (False, t)
      | [] \<Rightarrow> (False, t))"

definition py_int_of_string :: "string \<Rightarrow> int option" where
  "py_int_of_string s =
     (case split_sign (py_strip s) of
        (neg, body) \<Rightarrow>
          if valid_digits body
          then Some ((if neg then - 1 else 1) * int (digits_val (filter (\<lambda>c. c \<noteq> CHR ''_'') body)))
          else None)"

fun py_int :: "pyval \<Rightarrow> pyerr + int" where
  "py_int PNone = Inl TypeError"
| "py_int PNaN = Inl ValueError"
| "py_int (PBool b) = Inr (if b then 1 else 0)"
| "py_int (PInt n) = Inr n"
| "py_int (PFloat r) = Inr (if 0 \<le> r then \<lfloor>r\<rfloor> else \<lceil>r\<rceil>)"
| "py_int (PStr s) = (case py_int_of_string s of None \<Rightarrow> Inl ValueError | Some n \<Rightarrow> Inr n)"

text \<open>\<^verbatim>\<open>float(x)\<close>. Of the spellings of a float, a string is read when it is a plain
  decimal numeral (sign, digits, at most one point) or \<^verbatim>\<open>nan\<close>; exponents, underscores
  and infinities are not modelled (they do not occur in the win-probability and
  expected-points columns, which are the only ones converted).\<close>

definition py_float_of_string :: "string \<Rightarrow> pyval option" where
  "py_float_of_string s =
     (case split_sign (py_strip s) of
        (neg, body) \<Rightarrow>
          if py_lower body = ''nan'' then Some PNaN
          else (case py_split_on (CHR ''.'') [] body of
                  [ip] \<Rightarrow>
                    if ip \<noteq> [] \<and> list_all py_isdigit ip
                    then Some (PFloat ((if neg then - 1 else 1) * of_nat (digits_val ip)))
                    else None
                | [ip, fp] \<Rightarrow>
                    if (ip \<noteq> [] \<or> fp \<noteq> []) \<and> list_all py_isdigit ip \<and> list_all py_isdigit fp
                    then Some (PFloat ((if neg then - 1 else 1) *
                            (of_nat (digits_val ip) + of_nat (digits_val fp) / 10 ^ length fp)))
                    else None
                | _ \<Rightarrow> None))"

fun py_float :: "pyval \<Rightarrow> pyerr + pyval" where
  "py_float PNone = Inl TypeError"
| "py_float PNaN = Inr PNaN"
| "py_float (PBool b) = Inr (PFloat (if b then 1 else 0))"
| "py_float (PInt n) = Inr (PFloat (of_int n))"
| "py_float (PFloat r) = Inr (PFloat r)"
| "py_float (PStr s) = (case py_float_of_string s of None \<Rightarrow> Inl ValueError | Some v \<Rightarrow> Inr v)"

text \<open>Float subtraction and the arithmetic of \<^verbatim>\<open>secsElapsed\<close>; NaN propagates.\<close>

fun py_sub_float :: "pyval \<Rightarrow> pyval \<Rightarrow> pyval" where
  "py_sub_float (PFloat a) (PFloat b) = PFloat (a - b)"
| "py_sub_float a b = PNaN"

fun secs_elapsed :: "pyval \<Rightarrow> int \<Rightarrow> int \<Rightarrow> pyval" where
  "secs_elapsed (PInt qtr) mins secs = PInt (qtr * 900 - mins * 60 - secs)"
| "secs_elapsed q mins secs = PNaN"

text \<open>\<^verbatim>\<open>table.get(key, np.nan)\<close> on one of the two lookup tables.\<close>

fun table_get :: "(string \<times> string) list \<Rightarrow> pyval \<Rightarrow> pyval" where
  "table_get tab (PStr k) = (case map_of tab k of None \<Rightarrow> PNaN | Some v \<Rightarrow> PStr v)"
| "table_get tab v = PNaN"

section \<open>\<^verbatim>\<open>_loc_to_features\<close>\<close>

text \<open>
  The function returns a two-element tuple, or the list \<^verbatim>\<open>loc.split()\<close> with its first
  two entries replaced; both are modelled as a list of values. A true value that is neither
  a string nor a float leaves \<^verbatim>\<open>r\<close> unbound.
\<close>

definition loc_to_features :: "pyval \<Rightarrow> pyerr + pyval list" where
  "loc_to_features loc =
     (if truthy loc then
        (case loc of
           PStr s \<Rightarrow>
             (let loc' = py_strip s in
              if CHR '' '' \<in> set loc' then
                (case py_split loc' of
                   r0 # r1 # rest \<Rightarrow>
                     (case py_int_of_string r1 of
                        None \<Rightarrow> Inl ValueError
                      | Some n \<Rightarrow> Inr (PStr (py_lower r0) # PInt n # map PStr rest))
                 | _ \<Rightarrow> Inl IndexError)
              else
                (case py_int_of_string loc' of
                   None \<Rightarrow> Inl ValueError
                 | Some n \<Rightarrow> Inr [PNaN, PInt n]))
         | PFloat r \<Rightarrow> Inr [PNaN, PInt 50]
         | PNaN \<Rightarrow> Inr [PNaN, PInt 50]
         | _ \<Rightarrow> Inl UnboundLocalError)
      else Inr [PNaN, PNaN])"

section \<open>\<^verbatim>\<open>_clean_features\<close>\<close>

text \<open>
  The function receives one row of the frame as a dictionary and rewrites it in four
  passes. Each pass is a function of its own here, in the order of the source; a pass that
  can raise returns a sum.
\<close>

definition ptypes :: "string list" where
  "ptypes = [''isKickoff'', ''isTimeout'', ''isFieldGoal'', ''isPunt'', ''isKneel'',
     ''isSpike'', ''isXP'', ''isTwoPoint'', ''isPresnapPenalty'', ''isPass'',
     ''isRun'', ''penalty'']"

definition bool_vars :: "string list" where
  "bool_vars = [''fgGood'', ''isBlocked'', ''isChallenge'', ''isComplete'', ''isFairCatch'',
     ''isFieldGoal'', ''isKickoff'', ''isKneel'', ''isLateral'', ''isNoPlay'',
     ''isPass'', ''isPresnapPenalty'', ''isPunt'', ''isRun'', ''isSack'', ''isSafety'',
     ''isSpike'', ''isTD'', ''isTimeout'', ''isTouchback'', ''isTwoPoint'', ''isXP'',
     ''isMuffedCatch'', ''oob'', ''penDeclined'', ''twoPointSuccess'', ''xpGood'']"

definition int_vars :: "string list" where
  "int_vars = [''down'', ''fgBlockRetYds'', ''fgDist'', ''fumbRecYdLine'', ''fumbRetYds'',
     ''intRetYds'', ''intYdLine'', ''koRetYds'', ''koYds'', ''muffRetYds'',
     ''pbp_score_aw'', ''pbp_score_hm'', ''passYds'', ''penYds'', ''puntBlockRetYds'',
     ''puntRetYds'', ''puntYds'', ''quarter'', ''rushYds'', ''sackYds'', ''timeoutNum'',
     ''ydLine'', ''yds_to_go'']"

definition float_vars :: "string list" where
  "float_vars = [''exp_pts_after'', ''exp_pts_before'', ''home_wp'']"

definition string_vars :: "string list" where
  "string_vars = [''challenger'', ''detail'', ''fairCatcher'', ''fgBlockRecoverer'',
     ''fgBlocker'', ''fgKicker'', ''fieldSide'', ''fumbForcer'',
     ''fumbRecFieldSide'', ''fumbRecoverer'', ''fumbler'', ''intFieldSide'',
     ''interceptor'', ''kneelQB'', ''koKicker'', ''koReturner'', ''muffRecoverer'',
     ''muffedBy'', ''passLoc'', ''passer'', ''penOn'', ''penalty'',
     ''puntBlockRecoverer'', ''puntBlocker'', ''puntReturner'', ''punter'',
     ''qtr_time_remain'', ''rushDir'', ''rusher'', ''sacker1'', ''sacker2'',
     ''spikeQB'', ''tackler1'', ''tackler2'', ''target'', ''timeoutTeam'',
     ''xpKicker'']"

subsection \<open>First pass: the play type flags\<close>

definition clean_ptype :: "pydict \<Rightarrow> string \<Rightarrow> pydict" where
  "clean_ptype struct pt =
     struct(pt \<mapsto> (if notnull (py_get struct pt) then py_get struct pt else PBool False))"

definition clean_ptypes :: "pydict \<Rightarrow> pydict" where
  "clean_ptypes struct = foldl clean_ptype struct ptypes"

subsection \<open>Second pass: one variable after the other\<close>

text \<open>\<^verbatim>\<open>struct[k] = struct.get(k) == 'text'\<close> and
  \<^verbatim>\<open>struct[k] = pd.notnull(struct.get(src))\<close>.\<close>

definition set_eq :: "string \<Rightarrow> string \<Rightarrow> pydict \<Rightarrow> pydict" where
  "set_eq k v struct = struct(k \<mapsto> PBool (py_get struct k = PStr v))"

definition set_notnull :: "string \<Rightarrow> string \<Rightarrow> pydict \<Rightarrow> pydict" where
  "set_notnull k src struct = struct(k \<mapsto> PBool (notnull (py_get struct src)))"

text \<open>The value of \<^verbatim>\<open>isNoPlay\<close>: a conditional expression on the detail text.\<close>

definition no_play_value :: "pydict \<Rightarrow> pyerr + pyval" where
  "no_play_value struct =
     (if truthy (py_get struct ''detail'') then
        (case py_in '' (no play)'' (py_get struct ''detail'') of
           Inl e \<Rightarrow> Inl e
         | Inr a \<Rightarrow>
             if a then
               (case py_in ''penalty enforced in end zone'' (py_get struct ''detail'') of
                  Inl e \<Rightarrow> Inl e
                | Inr b \<Rightarrow> Inr (PBool (\<not> b)))
             else Inr (PBool False))
      else Inr (PBool False))"

text \<open>The value of \<^verbatim>\<open>isSafety\<close>: \<^verbatim>\<open>a or (d and b)\<close> gives \<open>d\<close> itself when the
  detail text is false.\<close>

definition safety_value :: "pydict \<Rightarrow> pyerr + pyval" where
  "safety_value struct =
     (if py_get struct ''isSafety'' = PStr '', safety'' then Inr (PBool True)
      else if truthy (py_get struct ''detail'') then
        (case py_in ''enforced in end zone, safety'' (py_get struct ''detail'') of
           Inl e \<Rightarrow> Inl e
         | Inr b \<Rightarrow> Inr (PBool b))
      else Inr (py_get struct ''detail''))"

text \<open>\<^verbatim>\<open>if struct[flag]: v = struct[k]; struct[k] = v if pd.notnull(v) else 0\<close>.\<close>

definition default_yards :: "string \<Rightarrow> string \<Rightarrow> pydict \<Rightarrow> pyerr + pydict" where
  "default_yards flag k struct =
     (case py_getitem struct flag of
        Inl e \<Rightarrow> Inl e
      | Inr f \<Rightarrow>
          if truthy f then
            (case py_getitem struct k of
               Inl e \<Rightarrow> Inl e
             | Inr v \<Rightarrow> Inr (struct(k \<mapsto> (if notnull v then v else PInt 0))))
          else Inr struct)"

definition clean_penalty :: "pydict \<Rightarrow> pyerr + pydict" where
  "clean_penalty struct =
     (if truthy (py_get struct ''penalty'') then
        (case py_get struct ''penalty'' of
           PStr s \<Rightarrow> Inr (struct(''penalty'' \<mapsto> PStr (py_strip s)))
         | _ \<Rightarrow> Inl AttributeError)
      else Inr (struct(''penalty'' \<mapsto> PNone)))"

definition clean_quarter :: "pydict \<Rightarrow> pyerr + pydict" where
  "clean_quarter struct =
     (case py_getitem struct ''quarter'' of
        Inl e \<Rightarrow> Inl e
      | Inr q \<Rightarrow> Inr (if q = PStr ''OT'' then struct(''quarter'' \<mapsto> PInt 5) else struct))"

definition then_do :: "'e + 'a \<Rightarrow> ('a \<Rightarrow> 'e + 'b) \<Rightarrow> 'e + 'b" where
  "then_do m f = (case m of Inl e \<Rightarrow> Inl e | Inr x \<Rightarrow> f x)"

definition second_a :: "pydict \<Rightarrow> pydict" where
  "second_a = set_notnull ''isMuffedCatch'' ''isMuffedCatch'' \<circ> set_eq ''isFairCatch'' ''fair catch''
     \<circ> set_eq ''isComplete'' ''complete'' \<circ> set_eq ''isBlocked'' ''blocked''
     \<circ> set_eq ''fgGood'' ''good'' \<circ> set_eq ''callUpheld'' ''upheld''"

definition second_b :: "pydict \<Rightarrow> pydict" where
  "second_b = set_notnull ''isSack'' ''sackYds'' \<circ> set_eq ''isOnside'' ''onside''"

definition second_c :: "pydict \<Rightarrow> pydict" where
  "second_c struct =
     (let struct = set_eq ''isTD'' '', touchdown'' struct;
          struct = set_eq ''isTouchback'' '', touchback'' struct;
          struct = set_notnull ''oob'' ''oob'' struct
      in struct(''passLoc'' \<mapsto> table_get PASS_OPTS (py_get struct ''passLoc'')))"

definition second_d :: "pydict \<Rightarrow> pydict" where
  "second_d = set_eq ''xpGood'' ''good'' \<circ> set_eq ''twoPointSuccess'' ''succeeds''"

definition clean_second :: "pydict \<Rightarrow> pyerr + pydict" where
  "clean_second struct0 =
     (let struct = second_a struct0 in
      then_do (no_play_value struct) (\<lambda>v.
      let struct = second_b (struct(''isNoPlay'' \<mapsto> v)) in
      then_do (safety_value struct) (\<lambda>v.
      let struct = second_c (struct(''isSafety'' \<mapsto> v)) in
      then_do (default_yards ''isPass'' ''passYds'' struct) (\<lambda>struct.
      then_do (clean_penalty struct) (\<lambda>struct.
      then_do (clean_quarter (set_eq ''penDeclined'' ''Declined'' struct)) (\<lambda>struct.
      let struct = struct(''rushDir'' \<mapsto> table_get RUSH_OPTS (py_get struct ''rushDir'')) in
      then_do (default_yards ''isRun'' ''rushYds'' struct) (\<lambda>struct.
      Inr (second_d struct))))))))"

subsection \<open>Third pass: types\<close>

definition to_bool :: "pydict \<Rightarrow> string \<Rightarrow> pydict" where
  "to_bool struct var = struct(var \<mapsto> PBool (py_get struct var = PBool True))"

definition to_int :: "pydict \<Rightarrow> string \<Rightarrow> pydict" where
  "to_int struct var =
     struct(var \<mapsto> (case py_int (py_get struct var) of Inl e \<Rightarrow> PNaN | Inr n \<Rightarrow> PInt n))"

definition to_float :: "pydict \<Rightarrow> string \<Rightarrow> pydict" where
  "to_float struct var =
     struct(var \<mapsto> (case py_float (py_get struct var) of Inl e \<Rightarrow> PNaN | Inr v \<Rightarrow> v))"

definition to_string :: "pydict \<Rightarrow> string \<Rightarrow> pydict" where
  "to_string struct var =
     (if struct var = None \<or> \<not> notnull (py_get struct var) \<or> var = []
      then struct(var \<mapsto> PNaN) else struct)"

definition clean_types :: "pydict \<Rightarrow> pydict" where
  "clean_types struct =
     foldl to_string (foldl to_float (foldl to_int (foldl to_bool struct bool_vars) int_vars)
       float_vars) string_vars"

subsection \<open>Fourth pass: helper variables\<close>

definition clean_location :: "pydict \<Rightarrow> pyerr + pydict" where
  "clean_location struct =
     (case py_getitem struct ''isXP'' of
        Inl e \<Rightarrow> Inl e
      | Inr xp \<Rightarrow>
          if truthy xp then Inr (struct(''ydLine'' \<mapsto> PNaN, ''fieldSide'' \<mapsto> PNaN))
          else
            (case loc_to_features (py_get struct ''location'') of
               Inl e \<Rightarrow> Inl e
             | Inr [fieldSide, ydline] \<Rightarrow>
                 Inr (struct(''fieldSide'' \<mapsto> fieldSide, ''ydLine'' \<mapsto> ydline))
             | Inr _ \<Rightarrow> Inl ValueError))"

text \<open>\<^verbatim>\<open>[int(t) for t in s.split(':')]\<close>.\<close>

fun ints_of :: "string list \<Rightarrow> pyerr + int list" where
  "ints_of [] = Inr []"
| "ints_of (t # ts) =
     (case py_int_of_string t of
        None \<Rightarrow> Inl ValueError
      | Some n \<Rightarrow> (case ints_of ts of Inl e \<Rightarrow> Inl e | Inr ns \<Rightarrow> Inr (n # ns)))"

definition clean_secs :: "pydict \<Rightarrow> pyerr + pydict" where
  "clean_secs struct =
     (if notnull (py_get struct ''qtr_time_remain'') then
        (case py_getitem struct ''quarter'' of
           Inl e \<Rightarrow> Inl e
         | Inr qtr \<Rightarrow>
             (case py_get struct ''qtr_time_remain'' of
                PStr s \<Rightarrow>
                  (case ints_of (py_split_on (CHR '':'') [] s) of
                     Inl e \<Rightarrow> Inl e
                   | Inr [mins, secs] \<Rightarrow> Inr (struct(''secsElapsed'' \<mapsto> secs_elapsed qtr mins secs))
                   | Inr _ \<Rightarrow> Inl ValueError)
              | _ \<Rightarrow> Inl AttributeError))
      else Inr struct)"

definition clean_epa :: "pydict \<Rightarrow> pyerr + pydict" where
  "clean_epa struct0 =
     (let struct = set_notnull ''isInt'' ''interceptor'' struct0;
          struct = set_notnull ''isFumble'' ''fumbler'' struct;
          struct = set_notnull ''isPenalty'' ''penalty'' struct
      in then_do (py_getitem struct ''exp_pts_after'') (\<lambda>after.
         then_do (py_getitem struct ''exp_pts_before'') (\<lambda>before.
         Inr (struct(''team_epa'' \<mapsto> py_sub_float after before,
                     ''opp_epa'' \<mapsto> py_sub_float before after)))))"

definition clean_helpers :: "pydict \<Rightarrow> pyerr + pydict" where
  "clean_helpers struct = then_do (clean_location struct) (\<lambda>struct.
     then_do (clean_secs struct) clean_epa)"

definition clean_features :: "pydict \<Rightarrow> pyerr + pydict" where
  "clean_features struct =
     then_do (clean_second (clean_ptypes struct)) (\<lambda>struct. clean_helpers (clean_types struct))"

section \<open>\<^verbatim>\<open>expand_details\<close>\<close>









section \<open>The win-probability columns of \<^verbatim>\<open>BoxScore.pbp\<close>\<close>

text \<open>
  After \<^verbatim>\<open>expand_details\<close> the method works on whole columns. The frame is modelled by
  the columns these statements read and write; a float column is a list of optional
  rationals, \<open>None\<close> being NaN. The rows are indexed from 0, as \<^verbatim>\<open>parse_table\<close>
  builds them. The names \<^verbatim>\<open>sportsref.nfl.pbp._add_team_columns\<close>,
  \<^verbatim>\<open>sportsref.nfl.winProb.initialWinProb\<close> and
  \<^verbatim>\<open>sportsref.nfl.pbp._add_team_features\<close> belong to a package that is not part of this
  repository: the frame below is the one the first of them returns, the second is a
  parameter, and the third runs after the statements modelled here.
\<close>

record frame =
  home_wp :: "rat option list"
  home_wpa :: "rat option list"
  pbp_score_hm :: "rat option list"
  pbp_score_aw :: "rat option list"
  secsElapsed :: "rat option list"
  isTimeout :: "bool list"

text \<open>The game: \<^verbatim>\<open>self.line()\<close> (\<open>None\<close> without a betting line),
  \<^verbatim>\<open>self.winner()\<close> (\<open>None\<close> for a tie) and \<^verbatim>\<open>self.home()\<close>.\<close>

record game =
  line :: "rat option"
  winner :: "string option"
  home :: string

definition nrows :: "frame \<Rightarrow> nat" where
  "nrows df = length (home_wp df)"

fun fsub :: "rat option \<Rightarrow> rat option \<Rightarrow> rat option" where
  "fsub (Some a) (Some b) = Some (a - b)"
| "fsub a b = None"

text \<open>\<^verbatim>\<open>Series.diff()\<close>, \<^verbatim>\<open>Series.shift(1)\<close> and
  \<^verbatim>\<open>fillna(method='ffill')\<close>.\<close>

definition col_shift :: "'a option list \<Rightarrow> 'a option list" where
  "col_shift xs = (case xs of [] \<Rightarrow> [] | y # ys \<Rightarrow> None # butlast xs)"

definition col_diff :: "rat option list \<Rightarrow> rat option list" where
  "col_diff xs = map2 fsub xs (col_shift xs)"

fun ffill :: "'a option \<Rightarrow> 'a option list \<Rightarrow> 'a option list" where
  "ffill prev [] = []"
| "ffill prev (None # xs) = prev # ffill prev xs"
| "ffill prev (Some v # xs) = Some v # ffill (Some v) xs"

text \<open>\<^verbatim>\<open>df.loc[i, col]\<close> raises \<^verbatim>\<open>KeyError\<close> for a label that is not in the
  index.\<close>

definition loc :: "'a list \<Rightarrow> nat \<Rightarrow> pyerr + 'a" where
  "loc xs i = (if i < length xs then Inr (xs ! i) else Inl KeyError)"

definition finalWP :: "game \<Rightarrow> rat" where
  "finalWP g = (case winner g of None \<Rightarrow> 50 | Some w \<Rightarrow> (if w = home g then 1 else 0) * 100)"

text \<open>One round of the loop over the first plays of the game.\<close>

definition fix_first_play :: "(rat option \<Rightarrow> pyerr + rat) \<Rightarrow> game \<Rightarrow> frame \<Rightarrow> nat \<Rightarrow> pyerr + frame" where
  "fix_first_play initialWinProb g df i =
     then_do (initialWinProb (line g)) (\<lambda>initwp.
       let df = df\<lparr>home_wp := (home_wp df)[i := Some initwp]\<rparr> in
       then_do (loc (home_wp df) (i + 1)) (\<lambda>next_wp.
         Inr (df\<lparr>home_wpa := (home_wpa df)[i := fsub next_wp (Some initwp)]\<rparr>)))"

text \<open>One round of the loop over the timeouts.\<close>

definition fix_timeout :: "game \<Rightarrow> frame \<Rightarrow> nat \<Rightarrow> pyerr + frame" where
  "fix_timeout g df to =
     (let df = df\<lparr>home_wpa := (home_wpa df)[to := Some 0]\<rparr> in
      then_do
        (if to + 2 < nrows df
         then then_do (loc (home_wp df) (to + 2)) (\<lambda>a.
              then_do (loc (home_wp df) (to + 1)) (\<lambda>b. Inr (fsub a b)))
         else then_do (loc (home_wp df) (to + 1)) (\<lambda>b. Inr (fsub (Some (finalWP g)) b)))
        (\<lambda>wpa. Inr (df\<lparr>home_wpa := (home_wpa df)[to + 1 := wpa]\<rparr>)))"

fun fold_err :: "('s \<Rightarrow> 'a \<Rightarrow> 'e + 's) \<Rightarrow> 's \<Rightarrow> 'a list \<Rightarrow> 'e + 's" where
  "fold_err f s [] = Inr s"
| "fold_err f s (x # xs) = (case f s x of Inl e \<Rightarrow> Inl e | Inr s' \<Rightarrow> fold_err f s' xs)"

definition set_first :: "'a \<Rightarrow> 'a list \<Rightarrow> 'a list" where
  "set_first v xs = xs[0 := v]"

definition pbp_wp :: "(rat option \<Rightarrow> pyerr + rat) \<Rightarrow> game \<Rightarrow> frame \<Rightarrow> pyerr + frame" where
  "pbp_wp initialWinProb g df0 =
     (let df = df0\<lparr>home_wpa := col_diff (home_wp df0)\<rparr>;
          df = df\<lparr>home_wp := col_shift (home_wp df),
                  pbp_score_hm := col_shift (pbp_score_hm df),
                  pbp_score_aw := col_shift (pbp_score_aw df)\<rparr>;
          df = df\<lparr>pbp_score_hm := set_first (Some 0) (pbp_score_hm df),
                  pbp_score_aw := set_first (Some 0) (pbp_score_aw df)\<rparr>;
          df = df\<lparr>home_wp := ffill None (home_wp df)\<rparr>;
          firstPlaysOfGame = filter (\<lambda>i. secsElapsed df ! i = Some 0) [0 ..< nrows df]
      in then_do (fold_err (fix_first_play initialWinProb g) df firstPlaysOfGame) (\<lambda>df.
         if nrows df = 0 then Inl IndexError
         else
           let lastPlayIdx = nrows df - 1;
               lastPlayWP = home_wp df ! lastPlayIdx;
               df = df\<lparr>home_wpa := (home_wpa df)[lastPlayIdx := fsub (Some (finalWP g)) lastPlayWP]\<rparr>;
               timeouts = filter (\<lambda>i. isTimeout df ! i) [0 ..< nrows df]
           in fold_err (fix_timeout g) df timeouts))"

section \<open>Properties of the normalization\<close>

subsection \<open>Which variables a pass writes\<close>

lemma then_do_Inr_iff: "then_do m f = Inr y \<longleftrightarrow> (\<exists>x. m = Inr x \<and> f x = Inr y)"
  by (cases m) (simp_all add: then_do_def)

lemma then_do_Inr [simp]: "then_do (Inr x) f = f x"
  by (simp add: then_do_def)

lemma then_do_Inl [simp]: "then_do (Inl e) f = Inl e"
  by (simp add: then_do_def)

lemma foldl_upd_other:
  assumes "\<And>s v. v \<in> set vs \<Longrightarrow> k \<noteq> v \<Longrightarrow> f s v k = s k" "k \<notin> set vs"
  shows "foldl f s vs k = s k"
  using assms by (induction vs arbitrary: s) auto

lemma set_eq_other [simp]: "k \<noteq> k' \<Longrightarrow> set_eq k' v s k = s k"
  by (simp add: set_eq_def)

lemma set_notnull_other [simp]: "k \<noteq> k' \<Longrightarrow> set_notnull k' src s k = s k"
  by (simp add: set_notnull_def)

lemma clean_ptypes_other: "k \<notin> set ptypes \<Longrightarrow> clean_ptypes s k = s k"
  unfolding clean_ptypes_def by (rule foldl_upd_other) (auto simp: clean_ptype_def)

lemma default_yards_other: "default_yards f y s = Inr s' \<Longrightarrow> k \<noteq> y \<Longrightarrow> s' k = s k"
  by (auto simp: default_yards_def split: sum.splits if_splits)

lemma clean_penalty_other: "clean_penalty s = Inr s' \<Longrightarrow> k \<noteq> ''penalty'' \<Longrightarrow> s' k = s k"
  by (auto simp: clean_penalty_def split: if_splits pyval.splits)

lemma clean_quarter_other: "clean_quarter s = Inr s' \<Longrightarrow> k \<noteq> ''quarter'' \<Longrightarrow> s' k = s k"
  by (auto simp: clean_quarter_def split: sum.splits if_splits)

definition second_touched :: "string list" where
  "second_touched = [''callUpheld'', ''fgGood'', ''isBlocked'', ''isComplete'', ''isFairCatch'',
     ''isMuffedCatch'', ''isNoPlay'', ''isOnside'', ''isSack'', ''isSafety'', ''isTD'',
     ''isTouchback'', ''oob'', ''passLoc'', ''passYds'', ''penalty'', ''penDeclined'', ''quarter'',
     ''rushDir'', ''rushYds'', ''twoPointSuccess'', ''xpGood'']"

lemma second_a_other:
  "k \<notin> set [''callUpheld'', ''fgGood'', ''isBlocked'', ''isComplete'', ''isFairCatch'', ''isMuffedCatch'']
   \<Longrightarrow> second_a s k = s k"
  by (simp add: second_a_def)

lemma second_b_other: "k \<notin> set [''isOnside'', ''isSack''] \<Longrightarrow> second_b s k = s k"
  by (simp add: second_b_def)

lemma second_c_other:
  "k \<notin> set [''isTD'', ''isTouchback'', ''oob'', ''passLoc''] \<Longrightarrow> second_c s k = s k"
  by (simp add: second_c_def Let_def)

lemma second_d_other: "k \<notin> set [''twoPointSuccess'', ''xpGood''] \<Longrightarrow> second_d s k = s k"
  by (simp add: second_d_def)

lemma clean_second_other:
  assumes "clean_second s = Inr s'" "k \<notin> set second_touched"
  shows "s' k = s k"
proof -
  from assms(1) obtain v1 v2 s3 s4 s5 s6 where
    "no_play_value (second_a s) = Inr v1"
    and "safety_value (second_b ((second_a s)(''isNoPlay'' \<mapsto> v1))) = Inr v2"
    and s3: "default_yards ''isPass'' ''passYds''
          (second_c ((second_b ((second_a s)(''isNoPlay'' \<mapsto> v1)))(''isSafety'' \<mapsto> v2))) = Inr s3"
    and s4: "clean_penalty s3 = Inr s4"
    and s5: "clean_quarter (set_eq ''penDeclined'' ''Declined'' s4) = Inr s5"
    and s6: "default_yards ''isRun'' ''rushYds''
          (s5(''rushDir'' \<mapsto> table_get RUSH_OPTS (py_get s5 ''rushDir''))) = Inr s6"
    and s': "s' = second_d s6"
    unfolding clean_second_def Let_def then_do_Inr_iff by auto
  from assms(2) have k: "k \<noteq> ''callUpheld''" "k \<noteq> ''fgGood''" "k \<noteq> ''isBlocked''" "k \<noteq> ''isComplete''"
    "k \<noteq> ''isFairCatch''" "k \<noteq> ''isMuffedCatch''" "k \<noteq> ''isNoPlay''" "k \<noteq> ''isOnside''"
    "k \<noteq> ''isSack''" "k \<noteq> ''isSafety''" "k \<noteq> ''isTD''" "k \<noteq> ''isTouchback''" "k \<noteq> ''oob''"
    "k \<noteq> ''passLoc''" "k \<noteq> ''passYds''" "k \<noteq> ''penalty''" "k \<noteq> ''penDeclined''"
    "k \<noteq> ''quarter''" "k \<noteq> ''rushDir''" "k \<noteq> ''rushYds''" "k \<noteq> ''twoPointSuccess''"
    "k \<noteq> ''xpGood''"
    by (auto simp: second_touched_def)
  have "s' k = s6 k" using s' k by (simp add: second_d_other)
  also have "\<dots> = s5 k" using default_yards_other[OF s6] k by simp
  also have "\<dots> = s4 k" using clean_quarter_other[OF s5] k by simp
  also have "\<dots> = s3 k" using clean_penalty_other[OF s4] k by simp
  also have "\<dots> = s k" using default_yards_other[OF s3] k
    by (simp add: second_a_other second_b_other second_c_other)
  finally show ?thesis .
qed

lemma to_string_other: "k \<noteq> v \<Longrightarrow> to_string s v k = s k"
  by (simp add: to_string_def)

lemma clean_types_other:
  assumes "k \<notin> set bool_vars" "k \<notin> set int_vars" "k \<notin> set float_vars" "k \<notin> set string_vars"
  shows "clean_types s k = s k"
proof -
  have "clean_types s k = foldl to_float (foldl to_int (foldl to_bool s bool_vars) int_vars) float_vars k"
    unfolding clean_types_def using assms(4)
    by (intro foldl_upd_other) (auto simp: to_string_def)
  also have "\<dots> = foldl to_int (foldl to_bool s bool_vars) int_vars k"
    using assms(3) by (intro foldl_upd_other) (auto simp: to_float_def)
  also have "\<dots> = foldl to_bool s bool_vars k"
    using assms(2) by (intro foldl_upd_other) (auto simp: to_int_def)
  also have "\<dots> = s k"
    using assms(1) by (intro foldl_upd_other) (auto simp: to_bool_def)
  finally show ?thesis .
qed


lemma py_get_upd_other [simp]: "k \<noteq> v \<Longrightarrow> py_get (s(v \<mapsto> x)) k = py_get s k"
  by (simp add: py_get_def)

lemma py_get_upd_same [simp]: "py_get (s(v \<mapsto> x)) v = x"
  by (simp add: py_get_def)

lemma foldl_upd_self:
  assumes f: "\<And>s v. v \<in> set vs \<Longrightarrow> f s v = s(v \<mapsto> g (py_get s v))"
    and "distinct vs" "k \<in> set vs"
  shows "foldl f s vs k = Some (g (py_get s k))"
  using assms
proof (induction vs arbitrary: s)
  case Nil
  then show ?case by simp
next
  case (Cons v vs)
  have fv: "f s v = s(v \<mapsto> g (py_get s v))" by (rule Cons.prems(1)) simp
  show ?case
  proof (cases "k = v")
    case True
    with Cons.prems have "k \<notin> set vs" by simp
    then have "foldl f (f s v) vs k = f s v k"
      using Cons.prems(1) by (intro foldl_upd_other) auto
    then show ?thesis using True fv by simp
  next
    case False
    with Cons.prems have "k \<in> set vs" "distinct vs" by simp_all
    then have "foldl f (f s v) vs k = Some (g (py_get (f s v) k))"
      using Cons.prems(1) by (intro Cons.IH) auto
    then show ?thesis using False fv by simp
  qed
qed

lemma distinct_vars: "distinct bool_vars" "distinct int_vars" "distinct float_vars" "distinct string_vars"
  by (simp_all add: bool_vars_def int_vars_def float_vars_def string_vars_def)

lemma vars_disjoint:
  "set bool_vars \<inter> set int_vars = {}" "set bool_vars \<inter> set float_vars = {}"
  "set bool_vars \<inter> set string_vars = {}" "set int_vars \<inter> set float_vars = {}"
  "set int_vars \<inter> set string_vars = {}" "set float_vars \<inter> set string_vars = {}"
  by (simp_all add: bool_vars_def int_vars_def float_vars_def string_vars_def)

lemma to_string_upd:
  "v \<noteq> [] \<Longrightarrow> to_string s v = s(v \<mapsto> (if notnull (py_get s v) then py_get s v else PNaN))"
  by (auto simp: to_string_def py_get_def notnull_def fun_upd_idem split: option.splits)

text \<open>What the third pass leaves in a variable of each of its four lists.\<close>

lemma clean_types_bool:
  assumes "k \<in> set bool_vars"
  shows "clean_types s k = Some (PBool (py_get s k = PBool True))"
proof -
  have "clean_types s k = foldl to_bool s bool_vars k"
  proof -
    have k: "k \<notin> set int_vars" "k \<notin> set float_vars" "k \<notin> set string_vars"
      using assms vars_disjoint by auto
    have "clean_types s k = foldl to_float (foldl to_int (foldl to_bool s bool_vars) int_vars) float_vars k"
      unfolding clean_types_def using k(3) by (intro foldl_upd_other) (auto simp: to_string_def)
    also have "\<dots> = foldl to_int (foldl to_bool s bool_vars) int_vars k"
      using k(2) by (intro foldl_upd_other) (auto simp: to_float_def)
    also have "\<dots> = foldl to_bool s bool_vars k"
      using k(1) by (intro foldl_upd_other) (auto simp: to_int_def)
    finally show ?thesis .
  qed
  also have "\<dots> = Some (PBool (py_get s k = PBool True))"
    using distinct_vars(1) assms by (intro foldl_upd_self) (auto simp: to_bool_def)
  finally show ?thesis .
qed

lemma clean_types_int:
  assumes "k \<in> set int_vars"
  shows "clean_types s k = Some (case py_int (py_get s k) of Inl e \<Rightarrow> PNaN | Inr n \<Rightarrow> PInt n)"
proof -
  have k: "k \<notin> set bool_vars" "k \<notin> set float_vars" "k \<notin> set string_vars"
    using assms vars_disjoint by auto
  have "clean_types s k = foldl to_float (foldl to_int (foldl to_bool s bool_vars) int_vars) float_vars k"
    unfolding clean_types_def using k(3) by (intro foldl_upd_other) (auto simp: to_string_def)
  also have "\<dots> = foldl to_int (foldl to_bool s bool_vars) int_vars k"
    using k(2) by (intro foldl_upd_other) (auto simp: to_float_def)
  also have "\<dots> = Some (case py_int (py_get (foldl to_bool s bool_vars) k) of Inl e \<Rightarrow> PNaN | Inr n \<Rightarrow> PInt n)"
    using distinct_vars(2) assms by (intro foldl_upd_self) (auto simp: to_int_def)
  also have "py_get (foldl to_bool s bool_vars) k = py_get s k"
  proof -
    have "foldl to_bool s bool_vars k = s k"
      using k(1) by (intro foldl_upd_other) (auto simp: to_bool_def)
    then show ?thesis by (simp add: py_get_def)
  qed
  finally show ?thesis .
qed

lemma clean_types_string:
  assumes "k \<in> set string_vars"
  shows "clean_types s k = Some (if notnull (py_get s k) then py_get s k else PNaN)"
proof -
  have k: "k \<notin> set bool_vars" "k \<notin> set int_vars" "k \<notin> set float_vars"
    using assms vars_disjoint by auto
  define s3 where "s3 = foldl to_float (foldl to_int (foldl to_bool s bool_vars) int_vars) float_vars"
  have ne: "\<And>v. v \<in> set string_vars \<Longrightarrow> v \<noteq> []" by (auto simp: string_vars_def)
  have "clean_types s k = foldl to_string s3 string_vars k"
    by (simp add: clean_types_def s3_def)
  also have "\<dots> = Some (if notnull (py_get s3 k) then py_get s3 k else PNaN)"
    using distinct_vars(4) assms ne by (intro foldl_upd_self) (auto simp: to_string_upd)
  also have "py_get s3 k = py_get s k"
  proof -
    have "s3 k = foldl to_int (foldl to_bool s bool_vars) int_vars k"
      unfolding s3_def using k(3) by (intro foldl_upd_other) (auto simp: to_float_def)
    also have "\<dots> = foldl to_bool s bool_vars k"
      using k(2) by (intro foldl_upd_other) (auto simp: to_int_def)
    also have "\<dots> = s k"
      using k(1) by (intro foldl_upd_other) (auto simp: to_bool_def)
    finally show ?thesis by (simp add: py_get_def)
  qed
  finally show ?thesis .
qed

text \<open>The fourth pass, statement by statement.\<close>

lemma clean_location_other:
  "clean_location s = Inr s' \<Longrightarrow> k \<noteq> ''fieldSide'' \<Longrightarrow> k \<noteq> ''ydLine'' \<Longrightarrow> s' k = s k"
  by (auto simp: clean_location_def split: sum.splits if_splits list.splits)

lemma clean_secs_other: "clean_secs s = Inr s' \<Longrightarrow> k \<noteq> ''secsElapsed'' \<Longrightarrow> s' k = s k"
  by (auto simp: clean_secs_def split: sum.splits if_splits list.splits pyval.splits)

lemma clean_epa_other:
  "clean_epa s = Inr s' \<Longrightarrow>
   k \<notin> set [''isInt'', ''isFumble'', ''isPenalty'', ''team_epa'', ''opp_epa''] \<Longrightarrow> s' k = s k"
  by (auto simp: clean_epa_def Let_def then_do_Inr_iff)

lemma clean_helpers_other:
  assumes "clean_helpers s = Inr s'"
    "k \<notin> set [''fieldSide'', ''ydLine'', ''secsElapsed'', ''isInt'', ''isFumble'', ''isPenalty'',
                ''team_epa'', ''opp_epa'']"
  shows "s' k = s k"
proof -
  from assms(1) obtain s1 s2 where s1: "clean_location s = Inr s1" and s2: "clean_secs s1 = Inr s2"
    and s': "clean_epa s2 = Inr s'"
    unfolding clean_helpers_def then_do_Inr_iff by auto
  have "s' k = s2 k" using clean_epa_other[OF s'] assms(2) by simp
  also have "\<dots> = s1 k" using clean_secs_other[OF s2] assms(2) by simp
  also have "\<dots> = s k" using clean_location_other[OF s1] assms(2) by simp
  finally show ?thesis .
qed

lemma clean_features_stages:
  assumes "clean_features s = Inr out"
  obtains s2 where "clean_second (clean_ptypes s) = Inr s2" "clean_helpers (clean_types s2) = Inr out"
  using assms unfolding clean_features_def then_do_Inr_iff by auto

lemma distinct_ptypes: "distinct ptypes"
  by (simp add: ptypes_def)

lemma clean_ptypes_self:
  "k \<in> set ptypes \<Longrightarrow>
   clean_ptypes s k = Some (if notnull (py_get s k) then py_get s k else PBool False)"
  unfolding clean_ptypes_def using distinct_ptypes
  by (intro foldl_upd_self) (auto simp: clean_ptype_def)

lemma py_get_cong: "s k = s' k \<Longrightarrow> py_get s k = py_get s' k"
  by (simp add: py_get_def)

text \<open>The extra-point flag of the result is true exactly when the row carried the Python
  value \<^verbatim>\<open>True\<close> for it.\<close>

lemma clean_features_isXP:
  assumes "clean_features s = Inr out"
  shows "out ''isXP'' = Some (PBool (py_get s ''isXP'' = PBool True))"
proof -
  from assms obtain s2 where s2: "clean_second (clean_ptypes s) = Inr s2"
    and out: "clean_helpers (clean_types s2) = Inr out"
    by (rule clean_features_stages)
  have "s2 ''isXP'' = clean_ptypes s ''isXP''"
    using clean_second_other[OF s2] by (simp add: second_touched_def)
  also have "\<dots> = Some (if notnull (py_get s ''isXP'') then py_get s ''isXP'' else PBool False)"
    by (rule clean_ptypes_self) (simp add: ptypes_def)
  finally have "py_get s2 ''isXP'' = PBool True \<longleftrightarrow> py_get s ''isXP'' = PBool True"
    by (auto simp: py_get_def notnull_def)
  moreover have "out ''isXP'' = clean_types s2 ''isXP''"
    using clean_helpers_other[OF out] by simp
  moreover have "clean_types s2 ''isXP'' = Some (PBool (py_get s2 ''isXP'' = PBool True))"
    by (rule clean_types_bool) (simp add: bool_vars_def)
  ultimately show ?thesis by simp
qed

lemma clean_features_location:
  assumes "clean_features s = Inr out"
  shows "if py_get s ''isXP'' = PBool True
         then out ''fieldSide'' = Some PNaN \<and> out ''ydLine'' = Some PNaN
         else (\<exists>fs yl. loc_to_features (py_get s ''location'') = Inr [fs, yl] \<and>
                 out ''fieldSide'' = Some fs \<and> out ''ydLine'' = Some yl)"
proof -
  from assms obtain s2 where s2: "clean_second (clean_ptypes s) = Inr s2"
    and out: "clean_helpers (clean_types s2) = Inr out"
    by (rule clean_features_stages)
  define s3 where "s3 = clean_types s2"
  from out obtain s4 s5 where s4: "clean_location s3 = Inr s4" and s5: "clean_secs s4 = Inr s5"
    and o: "clean_epa s5 = Inr out"
    unfolding clean_helpers_def then_do_Inr_iff s3_def by auto
  have keep: "out ''fieldSide'' = s4 ''fieldSide''" "out ''ydLine'' = s4 ''ydLine''"
    using clean_epa_other[OF o] clean_secs_other[OF s5] by simp_all
  have "s2 ''isXP'' = clean_ptypes s ''isXP''"
    using clean_second_other[OF s2] by (simp add: second_touched_def)
  also have "\<dots> = Some (if notnull (py_get s ''isXP'') then py_get s ''isXP'' else PBool False)"
    by (rule clean_ptypes_self) (simp add: ptypes_def)
  finally have xp: "py_get s2 ''isXP'' = PBool True \<longleftrightarrow> py_get s ''isXP'' = PBool True"
    by (auto simp: py_get_def notnull_def)
  have s3xp: "s3 ''isXP'' = Some (PBool (py_get s ''isXP'' = PBool True))"
    unfolding s3_def using clean_types_bool[of "''isXP''" s2] xp by (simp add: bool_vars_def)
  have "s3 ''location'' = s2 ''location''"
    unfolding s3_def
    by (rule clean_types_other) (simp_all add: bool_vars_def int_vars_def float_vars_def string_vars_def)
  also have "\<dots> = clean_ptypes s ''location''"
    using clean_second_other[OF s2] by (simp add: second_touched_def)
  also have "\<dots> = s ''location''"
    by (rule clean_ptypes_other) (simp add: ptypes_def)
  finally have loc: "py_get s3 ''location'' = py_get s ''location''"
    by (rule py_get_cong)
  show ?thesis
  proof (cases "py_get s ''isXP'' = PBool True")
    case True
    with s4 s3xp have "s4 = s3(''ydLine'' \<mapsto> PNaN, ''fieldSide'' \<mapsto> PNaN)"
      by (simp add: clean_location_def py_getitem_def)
    then show ?thesis using True keep by simp
  next
    case False
    with s4 s3xp loc obtain fs yl where "loc_to_features (py_get s ''location'') = Inr [fs, yl]"
      "s4 = s3(''fieldSide'' \<mapsto> fs, ''ydLine'' \<mapsto> yl)"
      by (auto simp: clean_location_def py_getitem_def split: sum.splits list.splits)
    then show ?thesis using False keep by simp
  qed
qed

subsection \<open>The location column and extra points\<close>

text \<open>Writing the location column commutes with every statement that does not read it.\<close>

definition with_loc :: "pyval \<Rightarrow> pydict \<Rightarrow> pydict" where
  "with_loc l s = s(''location'' \<mapsto> l)"

lemma py_get_with_loc [simp]: "k \<noteq> ''location'' \<Longrightarrow> py_get (with_loc l s) k = py_get s k"
  by (simp add: with_loc_def)

lemma with_loc_lookup [simp]: "k \<noteq> ''location'' \<Longrightarrow> with_loc l s k = s k"
  by (simp add: with_loc_def)

lemma with_loc_upd: "k \<noteq> ''location'' \<Longrightarrow> (with_loc l s)(k \<mapsto> v) = with_loc l (s(k \<mapsto> v))"
  by (simp add: with_loc_def fun_upd_twist)

lemma foldl_with_loc:
  assumes "\<And>s v. v \<in> set vs \<Longrightarrow> f (with_loc l s) v = with_loc l (f s v)"
  shows "foldl f (with_loc l s) vs = with_loc l (foldl f s vs)"
  using assms by (induction vs arbitrary: s) auto

lemma set_eq_with_loc [simp]:
  "k \<noteq> ''location'' \<Longrightarrow> set_eq k v (with_loc l s) = with_loc l (set_eq k v s)"
  by (simp add: set_eq_def with_loc_upd)

lemma set_notnull_with_loc [simp]:
  "k \<noteq> ''location'' \<Longrightarrow> src \<noteq> ''location'' \<Longrightarrow>
   set_notnull k src (with_loc l s) = with_loc l (set_notnull k src s)"
  by (simp add: set_notnull_def with_loc_upd)

lemma clean_ptypes_with_loc: "clean_ptypes (with_loc l s) = with_loc l (clean_ptypes s)"
  unfolding clean_ptypes_def
  by (rule foldl_with_loc) (auto simp: clean_ptype_def ptypes_def with_loc_upd)

lemma clean_types_with_loc: "clean_types (with_loc l s) = with_loc l (clean_types s)"
proof -
  have b: "\<And>s. foldl to_bool (with_loc l s) bool_vars = with_loc l (foldl to_bool s bool_vars)"
    by (rule foldl_with_loc) (auto simp: to_bool_def bool_vars_def with_loc_upd)
  have i: "\<And>s. foldl to_int (with_loc l s) int_vars = with_loc l (foldl to_int s int_vars)"
    by (rule foldl_with_loc) (auto simp: to_int_def int_vars_def with_loc_upd)
  have f: "\<And>s. foldl to_float (with_loc l s) float_vars = with_loc l (foldl to_float s float_vars)"
    by (rule foldl_with_loc) (auto simp: to_float_def float_vars_def with_loc_upd)
  have st: "\<And>s. foldl to_string (with_loc l s) string_vars = with_loc l (foldl to_string s string_vars)"
    by (rule foldl_with_loc) (auto simp: to_string_def string_vars_def with_loc_upd)
  show ?thesis by (simp add: clean_types_def b i f st)
qed

lemma map_sum_then_do: "then_do (map_sum id u m) f = then_do m (\<lambda>x. f (u x))"
  by (cases m) simp_all

lemma then_do_map_sum: "map_sum id u (then_do m f) = then_do m (\<lambda>x. map_sum id u (f x))"
  by (cases m) simp_all

lemma default_yards_with_loc:
  "f \<noteq> ''location'' \<Longrightarrow> y \<noteq> ''location'' \<Longrightarrow>
   default_yards f y (with_loc l s) = map_sum id (with_loc l) (default_yards f y s)"
  by (auto simp: default_yards_def py_getitem_def with_loc_upd split: option.splits)

lemma clean_penalty_with_loc:
  "clean_penalty (with_loc l s) = map_sum id (with_loc l) (clean_penalty s)"
  by (auto simp: clean_penalty_def with_loc_upd split: pyval.splits)

lemma clean_quarter_with_loc:
  "clean_quarter (with_loc l s) = map_sum id (with_loc l) (clean_quarter s)"
  by (auto simp: clean_quarter_def py_getitem_def with_loc_upd split: option.splits)

lemma no_play_value_with_loc [simp]: "no_play_value (with_loc l s) = no_play_value s"
  by (auto simp: no_play_value_def split: sum.splits)

lemma safety_value_with_loc [simp]: "safety_value (with_loc l s) = safety_value s"
  by (auto simp: safety_value_def split: sum.splits)

lemma second_with_loc [simp]:
  "second_a (with_loc l s) = with_loc l (second_a s)"
  "second_b (with_loc l s) = with_loc l (second_b s)"
  "second_c (with_loc l s) = with_loc l (second_c s)"
  "second_d (with_loc l s) = with_loc l (second_d s)"
  by (simp_all add: second_a_def second_b_def second_c_def second_d_def Let_def with_loc_upd)

lemma clean_second_with_loc:
  "clean_second (with_loc l s) = map_sum id (with_loc l) (clean_second s)"
  unfolding clean_second_def Let_def
  by (simp add: with_loc_upd default_yards_with_loc clean_penalty_with_loc clean_quarter_with_loc
        map_sum_then_do then_do_map_sum)

lemma clean_secs_with_loc: "clean_secs (with_loc l s) = map_sum id (with_loc l) (clean_secs s)"
  by (auto simp: clean_secs_def py_getitem_def with_loc_upd split: option.splits pyval.splits sum.splits list.splits)

lemma clean_epa_with_loc: "clean_epa (with_loc l s) = map_sum id (with_loc l) (clean_epa s)"
  by (auto simp: clean_epa_def Let_def py_getitem_def with_loc_upd split: option.splits)

lemma clean_location_xp_with_loc:
  assumes "s ''isXP'' = Some (PBool True)"
  shows "clean_location (with_loc l s) = map_sum id (with_loc l) (clean_location s)"
  using assms by (simp add: clean_location_def py_getitem_def with_loc_upd)

lemma clean_features_xp_with_loc:
  assumes "py_get s ''isXP'' = PBool True"
  shows "clean_features (with_loc l s) = map_sum id (with_loc l) (clean_features s)"
proof (cases "clean_second (clean_ptypes s)")
  case (Inl e)
  then show ?thesis
    by (simp add: clean_features_def clean_ptypes_with_loc clean_second_with_loc)
next
  case (Inr s2)
  have "s2 ''isXP'' = clean_ptypes s ''isXP''"
    using clean_second_other[OF Inr] by (simp add: second_touched_def)
  also have "\<dots> = Some (if notnull (py_get s ''isXP'') then py_get s ''isXP'' else PBool False)"
    by (rule clean_ptypes_self) (simp add: ptypes_def)
  finally have "py_get s2 ''isXP'' = PBool True"
    using assms by (simp add: py_get_def notnull_def)
  then have xp: "clean_types s2 ''isXP'' = Some (PBool True)"
    using clean_types_bool[of "''isXP''" s2] by (simp add: bool_vars_def)
  have "clean_helpers (with_loc l (clean_types s2)) = map_sum id (with_loc l) (clean_helpers (clean_types s2))"
    unfolding clean_helpers_def
    by (simp add: clean_location_xp_with_loc[where s = "clean_types s2", OF xp]
          clean_secs_with_loc clean_epa_with_loc map_sum_then_do then_do_map_sum)
  then show ?thesis
    using Inr by (simp add: clean_features_def clean_ptypes_with_loc clean_second_with_loc
        clean_types_with_loc)
qed

subsection \<open>The quarter and the clock\<close>




subsection \<open>Rows on which the normalization returns\<close>

text \<open>
  \<^verbatim>\<open>_clean_features\<close> raises on a row whose detail or penalty is a true value that is not
  a string, that lacks the quarter, that is a pass or a run without a yardage column, whose
  location cannot be split, or whose clock is not \<^verbatim>\<open>minutes:seconds\<close>. On every other
  row it returns.
\<close>

fun is_str :: "pyval \<Rightarrow> bool" where
  "is_str (PStr s) = True"
| "is_str v = False"

definition normalizable :: "pydict \<Rightarrow> bool" where
  "normalizable s =
     ((truthy (py_get s ''detail'') \<longrightarrow> is_str (py_get s ''detail'')) \<and>
      (notnull (py_get s ''isPass'') \<and> truthy (py_get s ''isPass'') \<longrightarrow> s ''passYds'' \<noteq> None) \<and>
      (notnull (py_get s ''penalty'') \<and> truthy (py_get s ''penalty'') \<longrightarrow> is_str (py_get s ''penalty'')) \<and>
      s ''quarter'' \<noteq> None \<and>
      (notnull (py_get s ''isRun'') \<and> truthy (py_get s ''isRun'') \<longrightarrow> s ''rushYds'' \<noteq> None) \<and>
      (py_get s ''isXP'' \<noteq> PBool True \<longrightarrow>
         (case loc_to_features (py_get s ''location'') of Inr [fs, yl] \<Rightarrow> True | _ \<Rightarrow> False)) \<and>
      (notnull (py_get s ''qtr_time_remain'') \<longrightarrow>
         (case py_get s ''qtr_time_remain'' of
            PStr cl \<Rightarrow> (case ints_of (py_split_on (CHR '':'') [] cl) of
                          Inr [mins, secs] \<Rightarrow> True | _ \<Rightarrow> False)
          | _ \<Rightarrow> False)))"

lemma is_str_conv: "is_str v \<longleftrightarrow> (\<exists>t. v = PStr t)"
  by (cases v) auto

lemma py_in_str: "is_str v \<Longrightarrow> \<exists>b. py_in sub v = Inr b"
  by (cases v) auto

lemma no_play_value_ok:
  assumes "truthy (py_get s ''detail'') \<longrightarrow> is_str (py_get s ''detail'')"
  shows "\<exists>v. no_play_value s = Inr v"
proof (cases "truthy (py_get s ''detail'')")
  case True
  with assms obtain t where "py_get s ''detail'' = PStr t" by (auto simp: is_str_conv)
  then show ?thesis by (simp add: no_play_value_def)
next
  case False
  then show ?thesis by (simp add: no_play_value_def)
qed

lemma safety_value_ok:
  assumes "truthy (py_get s ''detail'') \<longrightarrow> is_str (py_get s ''detail'')"
  shows "\<exists>v. safety_value s = Inr v"
proof (cases "truthy (py_get s ''detail'')")
  case True
  with assms obtain t where "py_get s ''detail'' = PStr t" by (auto simp: is_str_conv)
  then show ?thesis by (simp add: safety_value_def)
next
  case False
  then show ?thesis by (simp add: safety_value_def)
qed

lemma default_yards_ok:
  assumes "s f \<noteq> None" "truthy (py_get s f) \<longrightarrow> s y \<noteq> None"
  shows "\<exists>s'. default_yards f y s = Inr s'"
  using assms by (auto simp: default_yards_def py_getitem_def py_get_def split: option.splits)

lemma clean_penalty_ok:
  assumes "truthy (py_get s ''penalty'') \<longrightarrow> is_str (py_get s ''penalty'')"
  shows "\<exists>s'. clean_penalty s = Inr s'"
  using assms by (cases "py_get s ''penalty''") (auto simp: clean_penalty_def)

lemma clean_second_ok:
  assumes d: "truthy (py_get s ''detail'') \<longrightarrow> is_str (py_get s ''detail'')"
    and pass: "s ''isPass'' \<noteq> None" "truthy (py_get s ''isPass'') \<longrightarrow> s ''passYds'' \<noteq> None"
    and pen: "truthy (py_get s ''penalty'') \<longrightarrow> is_str (py_get s ''penalty'')"
    and q: "s ''quarter'' \<noteq> None"
    and run: "s ''isRun'' \<noteq> None" "truthy (py_get s ''isRun'') \<longrightarrow> s ''rushYds'' \<noteq> None"
  shows "\<exists>s'. clean_second s = Inr s'"
proof -
  define a where "a = second_a s"
  have da: "py_get a ''detail'' = py_get s ''detail''"
    unfolding a_def by (rule py_get_cong) (simp add: second_a_other)
  from no_play_value_ok[of a] d da obtain v1 where v1: "no_play_value a = Inr v1" by auto
  define b where "b = second_b (a(''isNoPlay'' \<mapsto> v1))"
  have bk: "\<And>k. k \<notin> set [''callUpheld'', ''fgGood'', ''isBlocked'', ''isComplete'', ''isFairCatch'',
      ''isMuffedCatch'', ''isNoPlay'', ''isOnside'', ''isSack''] \<Longrightarrow> b k = s k"
    unfolding b_def a_def by (simp add: second_a_other second_b_other)
  have db: "py_get b ''detail'' = py_get s ''detail''"
    by (rule py_get_cong) (simp add: bk)
  from safety_value_ok[of b] d db obtain v2 where v2: "safety_value b = Inr v2" by auto
  define c where "c = second_c (b(''isSafety'' \<mapsto> v2))"
  have ck: "\<And>k. k \<notin> set [''callUpheld'', ''fgGood'', ''isBlocked'', ''isComplete'', ''isFairCatch'',
      ''isMuffedCatch'', ''isNoPlay'', ''isOnside'', ''isSack'', ''isSafety'', ''isTD'',
      ''isTouchback'', ''oob'', ''passLoc''] \<Longrightarrow> c k = s k"
    unfolding c_def by (simp add: second_c_other bk)
  have "c ''isPass'' = s ''isPass''" "c ''passYds'' = s ''passYds''" by (simp_all add: ck)
  with pass have "c ''isPass'' \<noteq> None" "truthy (py_get c ''isPass'') \<longrightarrow> c ''passYds'' \<noteq> None"
    by (simp_all add: py_get_def)
  from default_yards_ok[OF this] obtain s3 where s3: "default_yards ''isPass'' ''passYds'' c = Inr s3"
    by blast
  have k3: "\<And>k. k \<noteq> ''passYds'' \<Longrightarrow> s3 k = c k" using default_yards_other[OF s3] by simp
  have "s3 ''penalty'' = s ''penalty''" by (simp add: k3 ck)
  then have "py_get s3 ''penalty'' = py_get s ''penalty''" by (rule py_get_cong)
  with pen clean_penalty_ok[of s3] obtain s4 where s4: "clean_penalty s3 = Inr s4" by auto
  have k4: "\<And>k. k \<noteq> ''penalty'' \<Longrightarrow> s4 k = s3 k" using clean_penalty_other[OF s4] by simp
  have "set_eq ''penDeclined'' ''Declined'' s4 ''quarter'' = s ''quarter''"
    by (simp add: k4 k3 ck)
  with q obtain s5 where s5: "clean_quarter (set_eq ''penDeclined'' ''Declined'' s4) = Inr s5"
    by (auto simp: clean_quarter_def py_getitem_def split: option.splits)
  have k5: "\<And>k. k \<noteq> ''quarter'' \<Longrightarrow> s5 k = set_eq ''penDeclined'' ''Declined'' s4 k"
    using clean_quarter_other[OF s5] by simp
  define r where "r = s5(''rushDir'' \<mapsto> table_get RUSH_OPTS (py_get s5 ''rushDir''))"
  have "r ''isRun'' = s ''isRun''" "r ''rushYds'' = s ''rushYds''"
    by (simp_all add: r_def k5 k4 k3 ck)
  with run have "r ''isRun'' \<noteq> None" "truthy (py_get r ''isRun'') \<longrightarrow> r ''rushYds'' \<noteq> None"
    by (simp_all add: py_get_def)
  from default_yards_ok[OF this] obtain s6 where s6: "default_yards ''isRun'' ''rushYds'' r = Inr s6"
    by blast
  show ?thesis
    unfolding clean_second_def Let_def
    using v1 v2 s3 s4 s5 s6 by (simp add: a_def[symmetric] b_def[symmetric] c_def[symmetric] r_def[symmetric])
qed

lemma clean_epa_ok:
  assumes "s ''exp_pts_after'' \<noteq> None" "s ''exp_pts_before'' \<noteq> None"
  shows "\<exists>s'. clean_epa s = Inr s'"
  using assms by (auto simp: clean_epa_def Let_def py_getitem_def split: option.splits)

lemma clean_types_float:
  assumes "k \<in> set float_vars"
  shows "clean_types s k \<noteq> None"
proof -
  have k: "k \<notin> set string_vars" using assms vars_disjoint by auto
  have "clean_types s k = foldl to_float (foldl to_int (foldl to_bool s bool_vars) int_vars) float_vars k"
    unfolding clean_types_def using k by (intro foldl_upd_other) (auto simp: to_string_def)
  also have "\<dots> = Some (case py_float (py_get (foldl to_int (foldl to_bool s bool_vars) int_vars) k)
      of Inl e \<Rightarrow> PNaN | Inr v \<Rightarrow> v)"
    using distinct_vars(3) assms by (intro foldl_upd_self) (auto simp: to_float_def)
  finally show ?thesis by simp
qed

lemma clean_features_ok:
  assumes "normalizable s"
  shows "\<exists>out. clean_features s = Inr out"
proof -
  define s1 where "s1 = clean_ptypes s"
  have other: "\<And>k. k \<notin> set ptypes \<Longrightarrow> s1 k = s k"
    unfolding s1_def by (rule clean_ptypes_other)
  have self: "\<And>k. k \<in> set ptypes \<Longrightarrow>
      s1 k = Some (if notnull (py_get s k) then py_get s k else PBool False)"
    unfolding s1_def by (rule clean_ptypes_self)
  from assms have n:
    "truthy (py_get s ''detail'') \<longrightarrow> is_str (py_get s ''detail'')"
    "notnull (py_get s ''isPass'') \<and> truthy (py_get s ''isPass'') \<longrightarrow> s ''passYds'' \<noteq> None"
    "notnull (py_get s ''penalty'') \<and> truthy (py_get s ''penalty'') \<longrightarrow> is_str (py_get s ''penalty'')"
    "s ''quarter'' \<noteq> None"
    "notnull (py_get s ''isRun'') \<and> truthy (py_get s ''isRun'') \<longrightarrow> s ''rushYds'' \<noteq> None"
    "py_get s ''isXP'' \<noteq> PBool True \<longrightarrow>
         (case loc_to_features (py_get s ''location'') of Inr [fs, yl] \<Rightarrow> True | _ \<Rightarrow> False)"
    "notnull (py_get s ''qtr_time_remain'') \<longrightarrow>
         (case py_get s ''qtr_time_remain'' of
            PStr cl \<Rightarrow> (case ints_of (py_split_on (CHR '':'') [] cl) of
                          Inr [mins, secs] \<Rightarrow> True | _ \<Rightarrow> False)
          | _ \<Rightarrow> False)"
    unfolding normalizable_def by blast+
  have d1: "py_get s1 ''detail'' = py_get s ''detail''"
    by (rule py_get_cong) (simp add: other ptypes_def)
  have p1: "s1 ''isPass'' = Some (if notnull (py_get s ''isPass'') then py_get s ''isPass'' else PBool False)"
    "s1 ''isRun'' = Some (if notnull (py_get s ''isRun'') then py_get s ''isRun'' else PBool False)"
    "s1 ''penalty'' = Some (if notnull (py_get s ''penalty'') then py_get s ''penalty'' else PBool False)"
    by (simp_all add: self ptypes_def)
  have o1: "s1 ''passYds'' = s ''passYds''" "s1 ''rushYds'' = s ''rushYds''" "s1 ''quarter'' = s ''quarter''"
    by (simp_all add: other ptypes_def)
  have "\<exists>s2. clean_second s1 = Inr s2"
  proof (rule clean_second_ok)
    show "truthy (py_get s1 ''detail'') \<longrightarrow> is_str (py_get s1 ''detail'')" using n(1) d1 by simp
    show "s1 ''isPass'' \<noteq> None" using p1 by simp
    show "truthy (py_get s1 ''isPass'') \<longrightarrow> s1 ''passYds'' \<noteq> None"
      using p1 o1 n(2) by (auto simp: py_get_def split: if_splits)
    show "truthy (py_get s1 ''penalty'') \<longrightarrow> is_str (py_get s1 ''penalty'')"
      using p1 n(3) by (auto simp: py_get_def split: if_splits)
    show "s1 ''quarter'' \<noteq> None" using o1 n(4) by simp
    show "s1 ''isRun'' \<noteq> None" using p1 by simp
    show "truthy (py_get s1 ''isRun'') \<longrightarrow> s1 ''rushYds'' \<noteq> None"
      using p1 o1 n(5) by (auto simp: py_get_def split: if_splits)
  qed
  then obtain s2 where s2: "clean_second s1 = Inr s2" by blast
  define s3 where "s3 = clean_types s2"
  \<comment> \<open>the location\<close>
  have "s2 ''isXP'' = s1 ''isXP''"
    using clean_second_other[OF s2] by (simp add: second_touched_def)
  also have "\<dots> = Some (if notnull (py_get s ''isXP'') then py_get s ''isXP'' else PBool False)"
    by (simp add: self ptypes_def)
  finally have xp: "py_get s2 ''isXP'' = PBool True \<longleftrightarrow> py_get s ''isXP'' = PBool True"
    by (auto simp: py_get_def notnull_def)
  have s3xp: "s3 ''isXP'' = Some (PBool (py_get s ''isXP'' = PBool True))"
    unfolding s3_def using clean_types_bool[of "''isXP''" s2] xp by (simp add: bool_vars_def)
  have "s3 ''location'' = s2 ''location''"
    unfolding s3_def
    by (rule clean_types_other) (simp_all add: bool_vars_def int_vars_def float_vars_def string_vars_def)
  also have "\<dots> = s1 ''location''"
    using clean_second_other[OF s2] by (simp add: second_touched_def)
  also have "\<dots> = s ''location''" by (simp add: other ptypes_def)
  finally have loc: "py_get s3 ''location'' = py_get s ''location''" by (rule py_get_cong)
  have "\<exists>s4. clean_location s3 = Inr s4"
  proof (cases "py_get s ''isXP'' = PBool True")
    case True
    then show ?thesis using s3xp by (simp add: clean_location_def py_getitem_def)
  next
    case False
    with n(6) obtain fs yl where "loc_to_features (py_get s ''location'') = Inr [fs, yl]"
      by (auto split: sum.splits list.splits)
    then show ?thesis using False s3xp loc by (simp add: clean_location_def py_getitem_def)
  qed
  then obtain s4 where s4: "clean_location s3 = Inr s4" by blast
  \<comment> \<open>the clock\<close>
  have "s2 ''qtr_time_remain'' = s1 ''qtr_time_remain''"
    using clean_second_other[OF s2] by (simp add: second_touched_def)
  also have "\<dots> = s ''qtr_time_remain''" by (simp add: other ptypes_def)
  finally have c2: "py_get s2 ''qtr_time_remain'' = py_get s ''qtr_time_remain''"
    by (rule py_get_cong)
  have "s3 ''qtr_time_remain'' =
      Some (if notnull (py_get s ''qtr_time_remain'') then py_get s ''qtr_time_remain'' else PNaN)"
    unfolding s3_def using clean_types_string[of "''qtr_time_remain''" s2] c2
    by (simp add: string_vars_def)
  then have c4: "py_get s4 ''qtr_time_remain'' =
      (if notnull (py_get s ''qtr_time_remain'') then py_get s ''qtr_time_remain'' else PNaN)"
    using clean_location_other[OF s4, of "''qtr_time_remain''"] by (simp add: py_get_def)
  have "s3 ''quarter'' \<noteq> None"
    unfolding s3_def using clean_types_int[of "''quarter''" s2] by (simp add: int_vars_def)
  then have q4: "s4 ''quarter'' \<noteq> None"
    using clean_location_other[OF s4, of "''quarter''"] by simp
  have "\<exists>s5. clean_secs s4 = Inr s5"
  proof (cases "notnull (py_get s ''qtr_time_remain'')")
    case True
    with n(7) obtain cl mins secs where "py_get s ''qtr_time_remain'' = PStr cl"
      "ints_of (py_split_on (CHR '':'') [] cl) = Inr [mins, secs]"
      by (auto split: pyval.splits sum.splits list.splits)
    then show ?thesis using True c4 q4
      by (auto simp: clean_secs_def py_getitem_def split: option.splits)
  next
    case False
    with c4 have "py_get s4 ''qtr_time_remain'' = PNaN" by simp
    then show ?thesis by (simp add: clean_secs_def notnull_def)
  qed
  then obtain s5 where s5: "clean_secs s4 = Inr s5" by blast
  \<comment> \<open>the expected points\<close>
  have "s3 ''exp_pts_after'' \<noteq> None" "s3 ''exp_pts_before'' \<noteq> None"
    unfolding s3_def by (rule clean_types_float, simp add: float_vars_def)+
  then have "s5 ''exp_pts_after'' \<noteq> None" "s5 ''exp_pts_before'' \<noteq> None"
    using clean_location_other[OF s4] clean_secs_other[OF s5] by simp_all
  from clean_epa_ok[OF this] obtain out where "clean_epa s5 = Inr out" by blast
  then show ?thesis
    using s2 s4 s5
    by (simp add: clean_features_def clean_helpers_def s1_def[symmetric] s3_def[symmetric])
qed

section \<open>The claims about the normalization\<close>



definition rowXP :: pydict where
  "rowXP = [''isXP'' \<mapsto> PBool True, ''quarter'' \<mapsto> PInt 1, ''location'' \<mapsto> PStr ''midfield'']"

lemma rowXP_normalizable: "normalizable rowXP"
  by (simp add: normalizable_def rowXP_def py_get_def notnull_def)

text \<open>
  C10. A play normalized with \<^verbatim>\<open>isXP\<close> true has \<^verbatim>\<open>fieldSide\<close> and \<^verbatim>\<open>ydLine\<close>
  missing, and its location column is ignored: whatever the row holds there, the result is
  the same but for the location value itself, which is passed through. The location is
  split for the other plays only, where the two fields are what
  \<^verbatim>\<open>_loc_to_features\<close> returns.
\<close>

theorem extra_point_location_ignored:
  "(clean_features s = Inr out \<longrightarrow> out ''isXP'' = Some (PBool True) \<longrightarrow>
      out ''fieldSide'' = Some PNaN \<and> out ''ydLine'' = Some PNaN) \<and>
   (py_get s ''isXP'' = PBool True \<longrightarrow>
      clean_features (s(''location'' \<mapsto> l)) =
        map_sum id (\<lambda>out. out(''location'' \<mapsto> l)) (clean_features s)) \<and>
   (clean_features s = Inr out \<longrightarrow> out ''isXP'' \<noteq> Some (PBool True) \<longrightarrow>
      (\<exists>fs yl. loc_to_features (py_get s ''location'') = Inr [fs, yl] \<and>
         out ''fieldSide'' = Some fs \<and> out ''ydLine'' = Some yl))"
proof (intro conjI impI)
  assume ok: "clean_features s = Inr out" and xp: "out ''isXP'' = Some (PBool True)"
  from clean_features_isXP[OF ok] xp have "py_get s ''isXP'' = PBool True" by simp
  with clean_features_location[OF ok]
  show "out ''fieldSide'' = Some PNaN" "out ''ydLine'' = Some PNaN" by simp_all
next
  assume "py_get s ''isXP'' = PBool True"
  from clean_features_xp_with_loc[OF this, of l]
  show "clean_features (s(''location'' \<mapsto> l)) =
        map_sum id (\<lambda>out. out(''location'' \<mapsto> l)) (clean_features s)"
    by (simp add: with_loc_def[abs_def])
next
  assume ok: "clean_features s = Inr out" and xp: "out ''isXP'' \<noteq> Some (PBool True)"
  from clean_features_isXP[OF ok] xp have "py_get s ''isXP'' \<noteq> PBool True" by simp
  with clean_features_location[OF ok]
  show "\<exists>fs yl. loc_to_features (py_get s ''location'') = Inr [fs, yl] \<and>
         out ''fieldSide'' = Some fs \<and> out ''ydLine'' = Some yl" by simp
qed

theorem extra_point_location_ignored_witness:
  "\<exists>out. clean_features rowXP = Inr out \<and> out ''isXP'' = Some (PBool True) \<and>
     out ''fieldSide'' = Some PNaN \<and> out ''ydLine'' = Some PNaN \<and>
     loc_to_features (py_get rowXP ''location'') = Inl ValueError"
proof -
  from clean_features_ok[OF rowXP_normalizable] obtain out where ok: "clean_features rowXP = Inr out"
    by blast
  have xp: "out ''isXP'' = Some (PBool True)"
    using clean_features_isXP[OF ok] by (simp add: rowXP_def py_get_def)
  from extra_point_location_ignored[of rowXP out] ok xp
  have "out ''fieldSide'' = Some PNaN \<and> out ''ydLine'' = Some PNaN" by blast
  moreover have "loc_to_features (py_get rowXP ''location'') = Inl ValueError"
    by (simp add: rowXP_def py_get_def loc_to_features_def py_strip_def py_isspace_def
          py_int_of_string_def split_sign_def valid_digits_def py_isdigit_def)
  ultimately show ?thesis using ok xp by blast
qed



section \<open>Evaluating the matchers\<close>

lemma lower_char_ascii:
  "lower_char (CHR '' '') = CHR '' ''"
  "lower_char (CHR ''!'') = CHR ''!''"
  "lower_char ((CHR 0x22)) = (CHR 0x22)"
  "lower_char (CHR ''#'') = CHR ''#''"
  "lower_char (CHR ''$'') = CHR ''$''"
  "lower_char (CHR ''%'') = CHR ''%''"
  "lower_char (CHR ''&'') = CHR ''&''"
  "lower_char ((CHR 0x27)) = (CHR 0x27)"
  "lower_char (CHR ''('') = CHR ''(''"
  "lower_char (CHR '')'') = CHR '')''"
  "lower_char (CHR ''*'') = CHR ''*''"
  "lower_char (CHR ''+'') = CHR ''+''"
  "lower_char (CHR '','') = CHR '',''"
  "lower_char (CHR ''-'') = CHR ''-''"
  "lower_char (CHR ''.'') = CHR ''.''"
  "lower_char (CHR ''/'') = CHR ''/''"
  "lower_char (CHR ''0'') = CHR ''0''"
  "lower_char (CHR ''1'') = CHR ''1''"
  "lower_char (CHR ''2'') = CHR ''2''"
  "lower_char (CHR ''3'') = CHR ''3''"
  "lower_char (CHR ''4'') = CHR ''4''"
  "lower_char (CHR ''5'') = CHR ''5''"
  "lower_char (CHR ''6'') = CHR ''6''"
  "lower_char (CHR ''7'') = CHR ''7''"
  "lower_char (CHR ''8'') = CHR ''8''"
  "lower_char (CHR ''9'') = CHR ''9''"
  "lower_char (CHR '':'') = CHR '':''"
  "lower_char (CHR '';'') = CHR '';''"
  "lower_char (CHR ''<'') = CHR ''<''"
  "lower_char (CHR ''='') = CHR ''=''"
  "lower_char (CHR ''>'') = CHR ''>''"
  "lower_char (CHR ''?'') = CHR ''?''"
  "lower_char (CHR ''@'') = CHR ''@''"
  "lower_char (CHR ''A'') = CHR ''a''"
  "lower_char (CHR ''B'') = CHR ''b''"
  "lower_char (CHR ''C'') = CHR ''c''"
  "lower_char (CHR ''D'') = CHR ''d''"
  "lower_char (CHR ''E'') = CHR ''e''"
  "lower_char (CHR ''F'') = CHR ''f''"
  "lower_char (CHR ''G'') = CHR ''g''"
  "lower_char (CHR ''H'') = CHR ''h''"
  "lower_char (CHR ''I'') = CHR ''i''"
  "lower_char (CHR ''J'') = CHR ''j''"
  "lower_char (CHR ''K'') = CHR ''k''"
  "lower_char (CHR ''L'') = CHR ''l''"
  "lower_char (CHR ''M'') = CHR ''m''"
  "lower_char (CHR ''N'') = CHR ''n''"
  "lower_char (CHR ''O'') = CHR ''o''"
  "lower_char (CHR ''P'') = CHR ''p''"
  "lower_char (CHR ''Q'') = CHR ''q''"
  "lower_char (CHR ''R'') = CHR ''r''"
  "lower_char (CHR ''S'') = CHR ''s''"
  "lower_char (CHR ''T'') = CHR ''t''"
  "lower_char (CHR ''U'') = CHR ''u''"
  "lower_char (CHR ''V'') = CHR ''v''"
  "lower_char (CHR ''W'') = CHR ''w''"
  "lower_char (CHR ''X'') = CHR ''x''"
  "lower_char (CHR ''Y'') = CHR ''y''"
  "lower_char (CHR ''Z'') = CHR ''z''"
  "lower_char (CHR ''['') = CHR ''[''"
  "lower_char ((CHR 0x5C)) = (CHR 0x5C)"
  "lower_char (CHR '']'') = CHR '']''"
  "lower_char (CHR ''^'') = CHR ''^''"
  "lower_char (CHR ''_'') = CHR ''_''"
  "lower_char (CHR ''`'') = CHR ''`''"
  "lower_char (CHR ''a'') = CHR ''a''"
  "lower_char (CHR ''b'') = CHR ''b''"
  "lower_char (CHR ''c'') = CHR ''c''"
  "lower_char (CHR ''d'') = CHR ''d''"
  "lower_char (CHR ''e'') = CHR ''e''"
  "lower_char (CHR ''f'') = CHR ''f''"
  "lower_char (CHR ''g'') = CHR ''g''"
  "lower_char (CHR ''h'') = CHR ''h''"
  "lower_char (CHR ''i'') = CHR ''i''"
  "lower_char (CHR ''j'') = CHR ''j''"
  "lower_char (CHR ''k'') = CHR ''k''"
  "lower_char (CHR ''l'') = CHR ''l''"
  "lower_char (CHR ''m'') = CHR ''m''"
  "lower_char (CHR ''n'') = CHR ''n''"
  "lower_char (CHR ''o'') = CHR ''o''"
  "lower_char (CHR ''p'') = CHR ''p''"
  "lower_char (CHR ''q'') = CHR ''q''"
  "lower_char (CHR ''r'') = CHR ''r''"
  "lower_char (CHR ''s'') = CHR ''s''"
  "lower_char (CHR ''t'') = CHR ''t''"
  "lower_char (CHR ''u'') = CHR ''u''"
  "lower_char (CHR ''v'') = CHR ''v''"
  "lower_char (CHR ''w'') = CHR ''w''"
  "lower_char (CHR ''x'') = CHR ''x''"
  "lower_char (CHR ''y'') = CHR ''y''"
  "lower_char (CHR ''z'') = CHR ''z''"
  "lower_char (CHR ''{'') = CHR ''{''"
  "lower_char (CHR ''|'') = CHR ''|''"
  "lower_char (CHR ''}'') = CHR ''}''"
  "lower_char (CHR ''~'') = CHR ''~''"
  by (simp_all add: lower_char_def latin1_upper_def)

lemma py_isspace_ascii:
  "py_isspace (CHR '' '') = True"
  "py_isspace (CHR ''!'') = False"
  "py_isspace ((CHR 0x22)) = False"
  "py_isspace (CHR ''#'') = False"
  "py_isspace (CHR ''$'') = False"
  "py_isspace (CHR ''%'') = False"
  "py_isspace (CHR ''&'') = False"
  "py_isspace ((CHR 0x27)) = False"
  "py_isspace (CHR ''('') = False"
  "py_isspace (CHR '')'') = False"
  "py_isspace (CHR ''*'') = False"
  "py_isspace (CHR ''+'') = False"
  "py_isspace (CHR '','') = False"
  "py_isspace (CHR ''-'') = False"
  "py_isspace (CHR ''.'') = False"
  "py_isspace (CHR ''/'') = False"
  "py_isspace (CHR ''0'') = False"
  "py_isspace (CHR ''1'') = False"
  "py_isspace (CHR ''2'') = False"
  "py_isspace (CHR ''3'') = False"
  "py_isspace (CHR ''4'') = False"
  "py_isspace (CHR ''5'') = False"
  "py_isspace (CHR ''6'') = False"
  "py_isspace (CHR ''7'') = False"
  "py_isspace (CHR ''8'') = False"
  "py_isspace (CHR ''9'') = False"
  "py_isspace (CHR '':'') = False"
  "py_isspace (CHR '';'') = False"
  "py_isspace (CHR ''<'') = False"
  "py_isspace (CHR ''='') = False"
  "py_isspace (CHR ''>'') = False"
  "py_isspace (CHR ''?'') = False"
  "py_isspace (CHR ''@'') = False"
  "py_isspace (CHR ''A'') = False"
  "py_isspace (CHR ''B'') = False"
  "py_isspace (CHR ''C'') = False"
  "py_isspace (CHR ''D'') = False"
  "py_isspace (CHR ''E'') = False"
  "py_isspace (CHR ''F'') = False"
  "py_isspace (CHR ''G'') = False"
  "py_isspace (CHR ''H'') = False"
  "py_isspace (CHR ''I'') = False"
  "py_isspace (CHR ''J'') = False"
  "py_isspace (CHR ''K'') = False"
  "py_isspace (CHR ''L'') = False"
  "py_isspace (CHR ''M'') = False"
  "py_isspace (CHR ''N'') = False"
  "py_isspace (CHR ''O'') = False"
  "py_isspace (CHR ''P'') = False"
  "py_isspace (CHR ''Q'') = False"
  "py_isspace (CHR ''R'') = False"
  "py_isspace (CHR ''S'') = False"
  "py_isspace (CHR ''T'') = False"
  "py_isspace (CHR ''U'') = False"
  "py_isspace (CHR ''V'') = False"
  "py_isspace (CHR ''W'') = False"
  "py_isspace (CHR ''X'') = False"
  "py_isspace (CHR ''Y'') = False"
  "py_isspace (CHR ''Z'') = False"
  "py_isspace (CHR ''['') = False"
  "py_isspace ((CHR 0x5C)) = False"
  "py_isspace (CHR '']'') = False"
  "py_isspace (CHR ''^'') = False"
  "py_isspace (CHR ''_'') = False"
  "py_isspace (CHR ''`'') = False"
  "py_isspace (CHR ''a'') = False"
  "py_isspace (CHR ''b'') = False"
  "py_isspace (CHR ''c'') = False"
  "py_isspace (CHR ''d'') = False"
  "py_isspace (CHR ''e'') = False"
  "py_isspace (CHR ''f'') = False"
  "py_isspace (CHR ''g'') = False"
  "py_isspace (CHR ''h'') = False"
  "py_isspace (CHR ''i'') = False"
  "py_isspace (CHR ''j'') = False"
  "py_isspace (CHR ''k'') = False"
  "py_isspace (CHR ''l'') = False"
  "py_isspace (CHR ''m'') = False"
  "py_isspace (CHR ''n'') = False"
  "py_isspace (CHR ''o'') = False"
  "py_isspace (CHR ''p'') = False"
  "py_isspace (CHR ''q'') = False"
  "py_isspace (CHR ''r'') = False"
  "py_isspace (CHR ''s'') = False"
  "py_isspace (CHR ''t'') = False"
  "py_isspace (CHR ''u'') = False"
  "py_isspace (CHR ''v'') = False"
  "py_isspace (CHR ''w'') = False"
  "py_isspace (CHR ''x'') = False"
  "py_isspace (CHR ''y'') = False"
  "py_isspace (CHR ''z'') = False"
  "py_isspace (CHR ''{'') = False"
  "py_isspace (CHR ''|'') = False"
  "py_isspace (CHR ''}'') = False"
  "py_isspace (CHR ''~'') = False"
  by (simp_all add: py_isspace_def)

lemma py_isdigit_ascii:
  "py_isdigit (CHR '' '') = False"
  "py_isdigit (CHR ''!'') = False"
  "py_isdigit ((CHR 0x22)) = False"
  "py_isdigit (CHR ''#'') = False"
  "py_isdigit (CHR ''$'') = False"
  "py_isdigit (CHR ''%'') = False"
  "py_isdigit (CHR ''&'') = False"
  "py_isdigit ((CHR 0x27)) = False"
  "py_isdigit (CHR ''('') = False"
  "py_isdigit (CHR '')'') = False"
  "py_isdigit (CHR ''*'') = False"
  "py_isdigit (CHR ''+'') = False"
  "py_isdigit (CHR '','') = False"
  "py_isdigit (CHR ''-'') = False"
  "py_isdigit (CHR ''.'') = False"
  "py_isdigit (CHR ''/'') = False"
  "py_isdigit (CHR ''0'') = True"
  "py_isdigit (CHR ''1'') = True"
  "py_isdigit (CHR ''2'') = True"
  "py_isdigit (CHR ''3'') = True"
  "py_isdigit (CHR ''4'') = True"
  "py_isdigit (CHR ''5'') = True"
  "py_isdigit (CHR ''6'') = True"
  "py_isdigit (CHR ''7'') = True"
  "py_isdigit (CHR ''8'') = True"
  "py_isdigit (CHR ''9'') = True"
  "py_isdigit (CHR '':'') = False"
  "py_isdigit (CHR '';'') = False"
  "py_isdigit (CHR ''<'') = False"
  "py_isdigit (CHR ''='') = False"
  "py_isdigit (CHR ''>'') = False"
  "py_isdigit (CHR ''?'') = False"
  "py_isdigit (CHR ''@'') = False"
  "py_isdigit (CHR ''A'') = False"
  "py_isdigit (CHR ''B'') = False"
  "py_isdigit (CHR ''C'') = False"
  "py_isdigit (CHR ''D'') = False"
  "py_isdigit (CHR ''E'') = False"
  "py_isdigit (CHR ''F'') = False"
  "py_isdigit (CHR ''G'') = False"
  "py_isdigit (CHR ''H'') = False"
  "py_isdigit (CHR ''I'') = False"
  "py_isdigit (CHR ''J'') = False"
  "py_isdigit (CHR ''K'') = False"
  "py_isdigit (CHR ''L'') = False"
  "py_isdigit (CHR ''M'') = False"
  "py_isdigit (CHR ''N'') = False"
  "py_isdigit (CHR ''O'') = False"
  "py_isdigit (CHR ''P'') = False"
  "py_isdigit (CHR ''Q'') = False"
  "py_isdigit (CHR ''R'') = False"
  "py_isdigit (CHR ''S'') = False"
  "py_isdigit (CHR ''T'') = False"
  "py_isdigit (CHR ''U'') = False"
  "py_isdigit (CHR ''V'') = False"
  "py_isdigit (CHR ''W'') = False"
  "py_isdigit (CHR ''X'') = False"
  "py_isdigit (CHR ''Y'') = False"
  "py_isdigit (CHR ''Z'') = False"
  "py_isdigit (CHR ''['') = False"
  "py_isdigit ((CHR 0x5C)) = False"
  "py_isdigit (CHR '']'') = False"
  "py_isdigit (CHR ''^'') = False"
  "py_isdigit (CHR ''_'') = False"
  "py_isdigit (CHR ''`'') = False"
  "py_isdigit (CHR ''a'') = False"
  "py_isdigit (CHR ''b'') = False"
  "py_isdigit (CHR ''c'') = False"
  "py_isdigit (CHR ''d'') = False"
  "py_isdigit (CHR ''e'') = False"
  "py_isdigit (CHR ''f'') = False"
  "py_isdigit (CHR ''g'') = False"
  "py_isdigit (CHR ''h'') = False"
  "py_isdigit (CHR ''i'') = False"
  "py_isdigit (CHR ''j'') = False"
  "py_isdigit (CHR ''k'') = False"
  "py_isdigit (CHR ''l'') = False"
  "py_isdigit (CHR ''m'') = False"
  "py_isdigit (CHR ''n'') = False"
  "py_isdigit (CHR ''o'') = False"
  "py_isdigit (CHR ''p'') = False"
  "py_isdigit (CHR ''q'') = False"
  "py_isdigit (CHR ''r'') = False"
  "py_isdigit (CHR ''s'') = False"
  "py_isdigit (CHR ''t'') = False"
  "py_isdigit (CHR ''u'') = False"
  "py_isdigit (CHR ''v'') = False"
  "py_isdigit (CHR ''w'') = False"
  "py_isdigit (CHR ''x'') = False"
  "py_isdigit (CHR ''y'') = False"
  "py_isdigit (CHR ''z'') = False"
  "py_isdigit (CHR ''{'') = False"
  "py_isdigit (CHR ''|'') = False"
  "py_isdigit (CHR ''}'') = False"
  "py_isdigit (CHR ''~'') = False"
  by (simp_all add: py_isdigit_def)

lemmas rx_defs = seqs_def alts_def one_def plus_def star_def lazy_plus_def lazy_star_def
  playerRE_def signed_digits_def signed_digits0_def yards_opt_s_def join_keys_def
  RUSH_OPTS_def PASS_OPTS_def

lemmas eval_simps = search_def rep_counts_def run_len_def py_lower_def
  lower_char_ascii py_isspace_ascii py_isdigit_ascii Let_def

























section \<open>The classifier as a first match in priority order\<close>

declare parse_str.simps [simp del]

datatype category = Kickoff | Timeout | FieldGoal | Punt | Kneel | Spike | ExtraPoint
  | TwoPointConversion | Pass | PresnapPenalty | Run

definition category_order :: "category list" where
  "category_order = [Kickoff, Timeout, FieldGoal, Punt, Kneel, Spike, ExtraPoint,
     TwoPointConversion, Pass, PresnapPenalty, Run]"

fun matcher :: "category \<Rightarrow> rx" where
  "matcher Kickoff = kickoffRE"
| "matcher Timeout = timeoutRE"
| "matcher FieldGoal = fgRE"
| "matcher Punt = puntRE"
| "matcher Kneel = kneelRE"
| "matcher Spike = spikeRE"
| "matcher ExtraPoint = extraPointRE"
| "matcher TwoPointConversion = twoPointRE"
| "matcher Pass = passRE"
| "matcher PresnapPenalty = psPenaltyRE"
| "matcher Run = rushRE"

fun flag :: "category \<Rightarrow> string" where
  "flag Kickoff = ''isKickoff''"
| "flag Timeout = ''isTimeout''"
| "flag FieldGoal = ''isFieldGoal''"
| "flag Punt = ''isPunt''"
| "flag Kneel = ''isKneel''"
| "flag Spike = ''isSpike''"
| "flag ExtraPoint = ''isXP''"
| "flag TwoPointConversion = ''isTwoPoint''"
| "flag Pass = ''isPass''"
| "flag PresnapPenalty = ''isPresnapPenalty''"
| "flag Run = ''isRun''"

text \<open>The first category of a list whose matcher matches, with the match.\<close>

fun first_match_in :: "category list \<Rightarrow> string \<Rightarrow> (category \<times> caps) option" where
  "first_match_in [] d = None"
| "first_match_in (c # cs) d =
     (case search (matcher c) d of Some m \<Rightarrow> Some (c, m) | None \<Rightarrow> first_match_in cs d)"

definition first_match :: "string \<Rightarrow> (category \<times> caps) option" where
  "first_match d = first_match_in category_order d"

definition two_point_capture :: "pydict \<Rightarrow> caps \<Rightarrow> pyerr + pydict option" where
  "two_point_capture struct m =
     (let struct2 = struct(''isTwoPoint'' \<mapsto> PBool True,
                           ''twoPointSuccess'' \<mapsto> py_group m ''twoPointSuccess'')
      in case (case m ''twoPoint'' of None \<Rightarrow> Inr None | Some inner \<Rightarrow> parse_str inner) of
           Inl e \<Rightarrow> Inl e
         | Inr None \<Rightarrow> Inr (Some struct2)
         | Inr (Some realPlay) \<Rightarrow> Inr (Some (struct2 ++ realPlay)))"

definition capture :: "pydict \<Rightarrow> category \<Rightarrow> caps \<Rightarrow> pyerr + pydict option" where
  "capture struct cat m =
     (if cat = TwoPointConversion then two_point_capture struct m
      else Inr (Some (struct(flag cat \<mapsto> PBool True) ++ groupdict (matcher cat) m)))"

definition earlier :: "category \<Rightarrow> category list" where
  "earlier cat = takeWhile (\<lambda>c. c \<noteq> cat) category_order"



lemma parse_str_first_match:
  assumes "handle_challenge d0 = Inr (struct0, d)"
  shows "parse_str d0 =
     (case first_match d of
        None \<Rightarrow> Inr None
      | Some (cat, m) \<Rightarrow>
          capture (struct0(''isLateral'' \<mapsto> PBool (py_find ''lateral'' d \<noteq> None))) cat m)"
  using assms
  by (subst parse_str.simps)
     (simp add: first_match_def category_order_def capture_def two_point_capture_def
        try_before_two_point_def try_after_two_point_def matched_def Let_def
      split: option.splits)

section \<open>One-row frames\<close>

subsection \<open>What the normalization leaves in the variables of a run\<close>







subsection \<open>A frame of one play\<close>




section \<open>Run plays\<close>









section \<open>The claims about the classifier\<close>







definition ex_challenge :: string where
  "ex_challenge = ''Punt. NE challenged, the play was upheld. Not overturned''"

lemma ex_challenge_match:
  "search challengeRE ex_challenge = Some [''challenger'' \<mapsto> ''NE'', ''callUpheld'' \<mapsto> ''upheld'']"
  by (simp add: ex_challenge_def challengeRE_def rx_defs eval_simps)

lemma ex_challenge_overturned:
  "py_contains ''overturned'' ex_challenge" "py_find ''overturned.'' ex_challenge = None"
  by (simp_all add: ex_challenge_def py_contains_def)

text \<open>
  C3. The classifier is to return the unrecognized outcome and never to raise. On a
  description whose challenge clause says \<^verbatim>\<open>upheld\<close> and that has the word
  \<^verbatim>\<open>overturned\<close> elsewhere, not followed by a full stop, the test
  \<^verbatim>\<open>'overturned' in details\<close> succeeds and \<^verbatim>\<open>details.index('overturned.')\<close> raises
  \<^verbatim>\<open>ValueError\<close>.
\<close>

theorem challenge_upheld_raises:
  "parse_play_details (PStr ''Punt. NE challenged, the play was upheld. Not overturned'') = Inl ValueError"
proof -
  have "handle_challenge ex_challenge = Inl ValueError"
    by (simp add: handle_challenge_def ex_challenge_match ex_challenge_overturned)
  then have "parse_str ex_challenge = Inl ValueError"
    by (subst parse_str.simps) simp
  then show ?thesis by (simp add: parse_play_details_def ex_challenge_def)
qed

text \<open>What does hold of C3: a value that is not a string, and a description that no
  matcher matches (and whose challenge clause does not raise), give \<^verbatim>\<open>None\<close>.\<close>

lemma unrecognized_is_none:
  "(\<forall>s. v \<noteq> PStr s) \<Longrightarrow> parse_play_details v = Inr None"
  "handle_challenge d0 = Inr (st0, d) \<Longrightarrow> first_match d = None \<Longrightarrow>
     parse_play_details (PStr d0) = Inr None"
proof -
  show "(\<forall>s. v \<noteq> PStr s) \<Longrightarrow> parse_play_details v = Inr None"
    by (cases v) (simp_all add: parse_play_details_def)
  show "handle_challenge d0 = Inr (st0, d) \<Longrightarrow> first_match d = None \<Longrightarrow>
     parse_play_details (PStr d0) = Inr None"
    using parse_str_first_match[of d0 st0 d] by (simp add: parse_play_details_def)
qed


lemma earlier_Run:
  "earlier Run = [Kickoff, Timeout, FieldGoal, Punt, Kneel, Spike, ExtraPoint,
      TwoPointConversion, Pass, PresnapPenalty]"
  by (simp add: earlier_def category_order_def)




end
